theory Spec2Isabelle
  imports Main
begin

section \<open>Python values and the renderer\<close>

text \<open>
  The class \<^verbatim>\<open>CcfePlot\<close> of \<^verbatim>\<open>src/ccfeplot/ccfeplot.py\<close> is a stateful wrapper around
  matplotlib. A session is modelled as a record that is passed in and returned; every
  call into matplotlib and every \<^verbatim>\<open>print\<close> is recorded as an event, in the order in
  which the code performs it; every \<^verbatim>\<open>raise\<close> is an \<open>Inl\<close> result. The calls into
  matplotlib are taken to return normally, except where stated.

  An \<open>axes\<close> value is the handle of one drawing surface: \<open>Axes i j\<close> is the object that
  \<^verbatim>\<open>plt.subplots\<close> created for row \<open>i\<close>, column \<open>j\<close> of the grid.
\<close>

datatype axes = Axes nat nat

text \<open>
  The fragment of Python values that option values, x data and y data range over. Python's
  \<^verbatim>\<open>bool\<close> is a subclass of \<^verbatim>\<open>int\<close> (\<^verbatim>\<open>False == 0\<close>, \<^verbatim>\<open>True == 1\<close>, same hash, same
  behaviour as an index), so \<^verbatim>\<open>True\<close> and \<^verbatim>\<open>False\<close> are \<open>PInt 1\<close> and \<open>PInt 0\<close>. Floats
  are outside the fragment. A dictionary is an association list in insertion order with
  distinct keys.
\<close>

datatype pyval =
    PNone
  | PInt int
  | PStr string
  | PTuple "pyval list"
  | PList "pyval list"
  | PDict "(pyval \<times> pyval) list"
  | PAxes axes

datatype error =
    NotImplementedError
  | ValueError
  | IndexError
  | KeyError
  | TypeError
  | AttributeError
  | OverflowError

type_synonym kwargs = "(string \<times> pyval) list"

text \<open>
  What can be handed over as a surface target (the \<^verbatim>\<open>ax\<close> argument of \<^verbatim>\<open>plot\<close>, the
  argument of \<^verbatim>\<open>get_axis\<close>, \<^verbatim>\<open>set_default_axis\<close> and \<^verbatim>\<open>_update_legend\<close>): the string
  \<^verbatim>\<open>'default'\<close>, an \<^verbatim>\<open>Axes\<close> instance, a tuple or a list of Python ints, a bare int, or
  any other object (one that is none of these and has no \<^verbatim>\<open>ticklabel_format\<close> attribute,
  such as \<^verbatim>\<open>None\<close> or another string).
\<close>

datatype target =
    Default
  | Handle axes
  | IdxTuple "int list"
  | IdxList "int list"
  | BareInt int
  | OtherObj

text \<open>A legend object, as returned by \<^verbatim>\<open>ax.legend(...)\<close> for the given surface.\<close>

datatype legend = Legend axes

text \<open>The calls that leave the class, in the order in which they are made.\<close>

datatype event =
    Subplots int int kwargs
  | Sca axes
  | TicklabelFormat axes
  | AxPlot axes pyval "pyval list" kwargs
  | AxLegend axes
  | Draggable legend
  | AxAutoscale axes pyval pyval pyval
  | FigShow
  | CanvasDraw
  | Print string

text \<open>
  The part of \<^verbatim>\<open>matplotlib.pyplot\<close> that the class reads: whether interactive mode is
  on, whether the session's figure window is still open, the value of
  \<^verbatim>\<open>mpl.rcParams['figure.dpi']\<close>, and, for each of the three functions that the code
  probes with \<^verbatim>\<open>hasattr\<close>, the names of the attributes of that function object.
\<close>

record pyplot =
  isinteractive :: bool
  fignum_exists :: bool
  rc_figure_dpi :: pyval
  subplots_attrs :: "string list"
  legend_attrs :: "string list"
  plot_attrs :: "string list"

text \<open>
  The attributes that every plain function object of CPython 3 has (\<^verbatim>\<open>dir\<close> of a
  function; later versions add a few more, all of the same shape): every name starts with
  two underscores. \<^verbatim>\<open>pyplot.plot\<close>, \<^verbatim>\<open>pyplot.legend\<close> and \<^verbatim>\<open>pyplot.subplots\<close> are such
  functions; \<^verbatim>\<open>hasattr(f, name)\<close> looks \<^verbatim>\<open>name\<close> up among the attributes of the object
  \<^verbatim>\<open>f\<close>, not among the parameters that \<^verbatim>\<open>f\<close> accepts.
\<close>

definition function_attributes :: "string list" where
  "function_attributes =
     [''__annotations__'', ''__call__'', ''__class__'', ''__closure__'',
      ''__code__'', ''__defaults__'', ''__delattr__'', ''__dict__'', ''__dir__'',
      ''__doc__'', ''__eq__'', ''__format__'', ''__ge__'', ''__get__'',
      ''__getattribute__'', ''__globals__'', ''__gt__'', ''__hash__'',
      ''__init__'', ''__init_subclass__'', ''__kwdefaults__'', ''__le__'', ''__lt__'',
      ''__module__'', ''__name__'', ''__ne__'', ''__new__'', ''__qualname__'',
      ''__reduce__'', ''__reduce_ex__'', ''__repr__'', ''__setattr__'', ''__sizeof__'',
      ''__str__'', ''__subclasshook__'']"

text \<open>
  matplotlib as the class finds it, with interactive mode on or off, the figure window
  open and a resolution of 100 dots per inch.
\<close>

definition matplotlib :: "bool \<Rightarrow> pyplot" where
  "matplotlib interactive =
     \<lparr>isinteractive = interactive, fignum_exists = True, rc_figure_dpi = PInt 100,
      subplots_attrs = function_attributes, legend_attrs = function_attributes,
      plot_attrs = function_attributes\<rparr>"

text \<open>\<^verbatim>\<open>hasattr(f, key)\<close>, given the attribute names of \<^verbatim>\<open>f\<close>.\<close>

definition hasattr :: "string list \<Rightarrow> string \<Rightarrow> bool" where
  "hasattr attrs key = (key \<in> set attrs)"

subsection \<open>Indexing and dictionaries\<close>

text \<open>
  \<^verbatim>\<open>xs[i]\<close> on a Python list, tuple or string: an index from \<open>- len\<close> up to \<open>len - 1\<close> is
  accepted, a negative one counts from the end, every other int raises \<^verbatim>\<open>IndexError\<close>.
\<close>

definition py_index :: "'a list \<Rightarrow> int \<Rightarrow> error + 'a" where
  "py_index xs i =
     (let n = int (length xs) in
      if 0 \<le> i \<and> i < n then Inr (xs ! nat i)
      else if - n \<le> i \<and> i < 0 then Inr (xs ! nat (n + i))
      else Inl IndexError)"

text \<open>
  \<^verbatim>\<open>arr[i]\<close> on the first axis of a numpy array, for a Python int \<open>i\<close>, on a build of numpy
  with 64-bit indices. numpy converts the index before it looks at the bounds: an int from
  \<open>2^63\<close> up to \<open>2^64 - 1\<close> raises \<^verbatim>\<open>OverflowError\<close>; every other int is accepted within
  \<open>- len\<close> up to \<open>len - 1\<close>, a negative one counting from the end, and raises \<^verbatim>\<open>IndexError\<close>
  otherwise.
\<close>

definition overflows :: "int \<Rightarrow> bool" where
  "overflows i = (9223372036854775808 \<le> i \<and> i < 18446744073709551616)"

definition np_index :: "'a list \<Rightarrow> int \<Rightarrow> error + 'a" where
  "np_index xs i = (if overflows i then Inl OverflowError else py_index xs i)"

text \<open>\<^verbatim>\<open>d[key] = value\<close> on a dictionary: replaces in place, or appends a new key.\<close>

fun dict_set :: "('k \<times> 'v) list \<Rightarrow> 'k \<Rightarrow> 'v \<Rightarrow> ('k \<times> 'v) list" where
  "dict_set [] k v = [(k, v)]"
| "dict_set ((k', v') # d) k v = (if k' = k then (k, v) # d else (k', v') # dict_set d k v)"

text \<open>\<^verbatim>\<open>d.pop(key)\<close> for a key that is there, and \<^verbatim>\<open>d.pop(key, None)\<close>: removes the key.\<close>

fun dict_pop :: "('k \<times> 'v) list \<Rightarrow> 'k \<Rightarrow> ('k \<times> 'v) list" where
  "dict_pop [] k = []"
| "dict_pop ((k', v') # d) k = (if k' = k then d else (k', v') # dict_pop d k)"

text \<open>The truth value of a Python value, as \<^verbatim>\<open>if v\<close> takes it.\<close>

fun truthy :: "pyval \<Rightarrow> bool" where
  "truthy PNone = False"
| "truthy (PInt n) = (n \<noteq> 0)"
| "truthy (PStr s) = (s \<noteq> [])"
| "truthy (PTuple xs) = (xs \<noteq> [])"
| "truthy (PList xs) = (xs \<noteq> [])"
| "truthy (PDict d) = (d \<noteq> [])"
| "truthy (PAxes a) = True"

section \<open>The session\<close>

text \<open>
  The instance attributes. \<open>subplots\<close> is the entry \<^verbatim>\<open>_figure_settings['subplots']\<close>, which
  \<^verbatim>\<open>__init__\<close> writes after the figure is made; \<open>figure_settings\<close> holds the other entries of
  that dictionary, which are the keyword arguments of \<^verbatim>\<open>plt.subplots\<close>. \<open>showlegend\<close> is
  the single entry of \<^verbatim>\<open>_other_defaults\<close>. \<open>kwargs\<close> is the attribute \<^verbatim>\<open>self.kwargs\<close>:
  \<open>None\<close> while the object has no such attribute. \<^verbatim>\<open>_legend_settings\<close> is a copy of the
  class constant \<^verbatim>\<open>_legend_defaults\<close> that no method writes and that every legend call
  receives; \<^verbatim>\<open>_fig\<close> and the three artist lists are never read by the methods below. These
  are left out.
\<close>

record session =
  axes_grid :: "axes list list"
  subplots :: "int \<times> int"
  figure_settings :: kwargs
  plot_settings_default :: kwargs
  showlegend :: pyval
  legends :: "(target \<times> legend option) list"
  default_ax :: "axes option"
  colorcycle :: pyval
  kwargs :: "kwargs option"

type_synonym 'a outcome = "(error + 'a) \<times> session \<times> event list"

definition result_of :: "'a outcome \<Rightarrow> error + 'a" where
  "result_of r = fst r"

definition state_of :: "'a outcome \<Rightarrow> session" where
  "state_of r = fst (snd r)"

definition events_of :: "'a outcome \<Rightarrow> event list" where
  "events_of r = snd (snd r)"

subsection \<open>Resolving a surface\<close>

text \<open>
  \<^verbatim>\<open>self._axes[ax[0]][ax[1]]\<close>: the row is looked up in the numpy array of surfaces with
  the first element of the sequence, the surface in that row with the second.
\<close>

definition axes_at :: "session \<Rightarrow> int list \<Rightarrow> error + axes" where
  "axes_at s ix =
     (case py_index ix 0 of
        Inl e \<Rightarrow> Inl e
      | Inr r \<Rightarrow>
          (case np_index (axes_grid s) r of
             Inl e \<Rightarrow> Inl e
           | Inr row \<Rightarrow>
               (case py_index ix 1 of
                  Inl e \<Rightarrow> Inl e
                | Inr c \<Rightarrow> np_index row c)))"

text \<open>
  \<^verbatim>\<open>get_axis(ax)\<close>: a surface is returned as it is, a list or tuple is looked up in the
  grid (with the errors of that lookup), an int raises \<^verbatim>\<open>NotImplementedError\<close>, anything else raises \<^verbatim>\<open>ValueError\<close>.
\<close>

fun get_axis :: "session \<Rightarrow> target \<Rightarrow> error + axes" where
  "get_axis s (Handle a) = Inr a"
| "get_axis s (IdxTuple ix) = axes_at s ix"
| "get_axis s (IdxList ix) = axes_at s ix"
| "get_axis s (BareInt n) = Inl NotImplementedError"
| "get_axis s Default = Inl ValueError"
| "get_axis s OtherObj = Inl ValueError"

text \<open>\<^verbatim>\<open>np.arange(n)\<close> for an int \<open>n\<close>.\<close>

definition arange :: "int \<Rightarrow> int list" where
  "arange n = map int [0..<nat n]"

text \<open>
  The grid indices in the order of the two nested loops
  \<^verbatim>\<open>for i in np.arange(rows): for j in np.arange(columns)\<close>, with the counts read from
  \<^verbatim>\<open>_figure_settings['subplots']\<close>.
\<close>

definition grid_indices :: "session \<Rightarrow> (int \<times> int) list" where
  "grid_indices s =
     concat (map (\<lambda>i. map (\<lambda>j. (i, j)) (arange (snd (subplots s)))) (arange (fst (subplots s))))"

text \<open>
  \<^verbatim>\<open>get_axis_index(ax)\<close> walks the grid in that order, reads \<^verbatim>\<open>self._axes[i, j]\<close> and
  returns its argument (not the index) at the first surface equal to it, and \<^verbatim>\<open>None\<close> when
  there is none. The argument is \<open>Some\<close> surface, or \<open>None\<close> for an object that is not a
  surface and so is equal to none.
\<close>

fun get_axis_index_loop ::
  "session \<Rightarrow> axes option \<Rightarrow> (int \<times> int) list \<Rightarrow> error + axes option"
where
  "get_axis_index_loop s ax [] = Inr None"
| "get_axis_index_loop s ax ((i, j) # ijs) =
     (case axes_at s [i, j] of
        Inl e \<Rightarrow> Inl e
      | Inr a \<Rightarrow> if ax = Some a then Inr ax else get_axis_index_loop s ax ijs)"

definition get_axis_index :: "session \<Rightarrow> axes option \<Rightarrow> error + axes option" where
  "get_axis_index s ax = get_axis_index_loop s ax (grid_indices s)"

text \<open>
  \<^verbatim>\<open>set_default_axis(indices)\<close>: refuses an int, resolves the surface, stores it as the
  default surface and makes it the current one of pyplot.
\<close>

fun is_int :: "target \<Rightarrow> bool" where
  "is_int (BareInt n) = True"
| "is_int t = False"

definition set_default_axis :: "session \<Rightarrow> target \<Rightarrow> axes outcome" where
  "set_default_axis s indices =
     (if is_int indices then (Inl NotImplementedError, s, [])
      else
        (case get_axis s indices of
           Inl e \<Rightarrow> (Inl e, s, [])
         | Inr ax \<Rightarrow> (Inr ax, s\<lparr>default_ax := Some ax\<rparr>, [Sca ax])))"

subsection \<open>Construction\<close>

text \<open>
  \<^verbatim>\<open>plt.subplots(nrows, ncolumns, squeeze=False, ...)\<close>: matplotlib raises
  \<^verbatim>\<open>ValueError\<close> unless both counts are positive, and otherwise returns a two-dimensional
  array of new surfaces.
\<close>

definition plt_subplots :: "int \<Rightarrow> int \<Rightarrow> error + axes list list" where
  "plt_subplots nrows ncolumns =
     (if nrows \<le> 0 \<or> ncolumns \<le> 0 then Inl ValueError
      else Inr (map (\<lambda>i. map (\<lambda>j. Axes i j) [0..<nat ncolumns]) [0..<nat nrows]))"

definition figure_defaults :: "pyplot \<Rightarrow> kwargs" where
  "figure_defaults plt =
     [(''figsize'', PNone), (''dpi'', rc_figure_dpi plt),
      (''sharex'', PInt 0), (''sharey'', PInt 0)]"

definition plot_defaults :: kwargs where
  "plot_defaults = [(''linestyle'', PStr ''-'')]"

text \<open>
  The attributes set before the figure exists, as one record; \<open>axes_grid\<close>, \<open>subplots\<close> and
  \<open>default_ax\<close> are written later in \<^verbatim>\<open>__init__\<close>.
\<close>

definition blank_session :: "pyplot \<Rightarrow> session" where
  "blank_session plt =
     \<lparr>axes_grid = [], subplots = (0, 0), figure_settings = figure_defaults plt,
      plot_settings_default = plot_defaults, showlegend = PInt 1, legends = [],
      default_ax = None, colorcycle = PList [], kwargs = None\<rparr>"

text \<open>One round of the loop over the keyword arguments of \<^verbatim>\<open>__init__\<close>.\<close>

definition init_kwarg :: "pyplot \<Rightarrow> string \<times> pyval \<Rightarrow> session \<Rightarrow> session" where
  "init_kwarg plt kv s =
     (if hasattr (subplots_attrs plt) (fst kv)
        then s\<lparr>figure_settings := dict_set (figure_settings s) (fst kv) (snd kv)\<rparr>
      else if hasattr (legend_attrs plt) (fst kv)
        then s\<lparr>figure_settings := dict_set (figure_settings s) (fst kv) (snd kv)\<rparr>
      else if hasattr (plot_attrs plt) (fst kv)
        then s\<lparr>plot_settings_default := dict_set (plot_settings_default s) (fst kv) (snd kv)\<rparr>
      else if fst kv = ''showlegend''
        then s\<lparr>showlegend := snd kv\<rparr>
      else s)"

text \<open>
  \<^verbatim>\<open>__init__(self, nrows, ncolumns, sharex, sharey, *args, **kwargs)\<close>. The parameters
  \<^verbatim>\<open>sharex\<close> and \<^verbatim>\<open>sharey\<close> are not used by the body.
\<close>

definition init ::
  "pyplot \<Rightarrow> int \<Rightarrow> int \<Rightarrow> pyval \<Rightarrow> pyval \<Rightarrow> pyval list \<Rightarrow> kwargs \<Rightarrow> (error + session) \<times> event list"
where
  "init plt nrows ncolumns sharex sharey args kws =
     (if args \<noteq> [] then (Inl NotImplementedError, [])
      else
        (let s1 = fold (init_kwarg plt) kws (blank_session plt) in
         case plt_subplots nrows ncolumns of
           Inl e \<Rightarrow> (Inl e, [])
         | Inr grid \<Rightarrow>
             (let s2 = s1\<lparr>axes_grid := grid, subplots := (nrows, ncolumns)\<rparr>;
                  r = set_default_axis s2 (IdxList [0, 0])
              in (case result_of r of
                    Inl e \<Rightarrow> (Inl e, Subplots nrows ncolumns (figure_settings s1) # events_of r)
                  | Inr ax \<Rightarrow>
                      (Inr (state_of r),
                       Subplots nrows ncolumns (figure_settings s1) # events_of r)))))"

text \<open>Construct without extra positional arguments, then resolve a target on the new session.\<close>

definition construct_then_resolve ::
  "pyplot \<Rightarrow> int \<Rightarrow> int \<Rightarrow> kwargs \<Rightarrow> target \<Rightarrow> error + axes"
where
  "construct_then_resolve plt nrows ncolumns kws t =
     (case fst (init plt nrows ncolumns (PInt 0) (PInt 0) [] kws) of
        Inl e \<Rightarrow> Inl e
      | Inr s \<Rightarrow> get_axis s t)"

subsection \<open>Legends\<close>

text \<open>A list is not hashable, so it cannot be a key of \<^verbatim>\<open>_legends\<close>.\<close>

fun unhashable :: "target \<Rightarrow> bool" where
  "unhashable (IdxList ix) = True"
| "unhashable t = False"

text \<open>
  \<^verbatim>\<open>_update_legend(indices)\<close>: resolves the surface, makes a legend on it when
  \<^verbatim>\<open>showlegend\<close> is true, and stores the legend (or \<^verbatim>\<open>None\<close>) in \<^verbatim>\<open>_legends\<close> under the
  argument as it was passed.
\<close>

definition update_legend :: "session \<Rightarrow> target \<Rightarrow> legend option outcome" where
  "update_legend s indices =
     (case get_axis s indices of
        Inl e \<Rightarrow> (Inl e, s, [])
      | Inr ax \<Rightarrow>
          (let leg = (if truthy (showlegend s) then Some (Legend ax) else None);
               ev = (if truthy (showlegend s) then [AxLegend ax, Draggable (Legend ax)] else [])
           in if unhashable indices then (Inl TypeError, s, ev)
              else (Inr leg, s\<lparr>legends := dict_set (legends s) indices leg\<rparr>, ev)))"

text \<open>The two nested loops of \<^verbatim>\<open>update_legends\<close>, over the grid indices as tuples.\<close>

fun update_legends_loop :: "session \<Rightarrow> (int \<times> int) list \<Rightarrow> unit outcome" where
  "update_legends_loop s [] = (Inr (), s, [])"
| "update_legends_loop s ((i, j) # ijs) =
     (let r = update_legend s (IdxTuple [i, j]) in
      case result_of r of
        Inl e \<Rightarrow> (Inl e, state_of r, events_of r)
      | Inr leg \<Rightarrow>
          (let r' = update_legends_loop (state_of r) ijs
           in (result_of r', state_of r', events_of r @ events_of r')))"

text \<open>\<^verbatim>\<open>update_legends()\<close> returns the dictionary \<^verbatim>\<open>_legends\<close> itself.\<close>

definition update_legends :: "session \<Rightarrow> (target \<times> legend option) list outcome" where
  "update_legends s =
     (let r = update_legends_loop s (grid_indices s) in
      case result_of r of
        Inl e \<Rightarrow> (Inl e, state_of r, events_of r)
      | Inr u \<Rightarrow> (Inr (legends (state_of r)), state_of r, events_of r))"

subsection \<open>Plotting one series\<close>

text \<open>
  \<^verbatim>\<open>redraw()\<close>: in interactive mode the figure is shown again if its window was closed and
  the canvas is repainted; otherwise a message is printed and nothing is drawn.
\<close>

definition redraw :: "pyplot \<Rightarrow> event list" where
  "redraw plt =
     (if isinteractive plt
      then (if \<not> fignum_exists plt then [FigShow] else []) @ [CanvasDraw]
      else [Print ''redraw() is unsupported in non-interactive plotting mode!''])"

text \<open>
  The options that \<^verbatim>\<open>plot\<close> hands to \<^verbatim>\<open>ax.plot\<close>: a copy of the session's line-plot
  defaults, in which each per-call option is stored if \<^verbatim>\<open>hasattr(plt.plot, key)\<close> holds.
\<close>

definition merge_kwarg :: "pyplot \<Rightarrow> string \<times> pyval \<Rightarrow> kwargs \<Rightarrow> kwargs" where
  "merge_kwarg plt kv plot_settings =
     (if hasattr (plot_attrs plt) (fst kv) then dict_set plot_settings (fst kv) (snd kv)
      else plot_settings)"

definition plot_settings_of :: "pyplot \<Rightarrow> session \<Rightarrow> kwargs \<Rightarrow> kwargs" where
  "plot_settings_of plt s kws = fold (merge_kwarg plt) kws (plot_settings_default s)"

text \<open>
  The first step of \<^verbatim>\<open>plot\<close>: \<^verbatim>\<open>'default'\<close> reads the session's default surface; a tuple,
  a list or an int goes through \<^verbatim>\<open>set_default_axis\<close>; anything else is used as it is. The
  result is \<open>Some\<close> surface, or \<open>None\<close> for an object that is not a surface.
\<close>

fun plot_target :: "session \<Rightarrow> target \<Rightarrow> axes option outcome" where
  "plot_target s Default =
     (case default_ax s of
        None \<Rightarrow> (Inl AttributeError, s, [])
      | Some a \<Rightarrow> (Inr (Some a), s, []))"
| "plot_target s (Handle a) = (Inr (Some a), s, [])"
| "plot_target s OtherObj = (Inr None, s, [])"
| "plot_target s t =
     (let r = set_default_axis s t in
      case result_of r of
        Inl e \<Rightarrow> (Inl e, state_of r, events_of r)
      | Inr a \<Rightarrow> (Inr (Some a), state_of r, events_of r))"

text \<open>
  What \<^verbatim>\<open>plot\<close> does on a surface, from \<^verbatim>\<open>ax.ticklabel_format\<close> on.
\<close>

definition plot_on :: "pyplot \<Rightarrow> session \<Rightarrow> event list \<Rightarrow> axes \<Rightarrow> pyval \<Rightarrow> pyval list \<Rightarrow> kwargs \<Rightarrow> unit outcome"
where
  "plot_on plt s1 ev0 a x args kws =
     (let plot_settings = plot_settings_of plt s1 kws;
          ev1 = ev0 @ [TicklabelFormat a, AxPlot a x args plot_settings];
          r2 = update_legend s1 (Handle a)
      in case result_of r2 of
           Inl e \<Rightarrow> (Inl e, state_of r2, ev1 @ events_of r2)
         | Inr leg \<Rightarrow>
             (Inr (), state_of r2,
              ev1 @ events_of r2 @ (if isinteractive plt then redraw plt else [])))"

text \<open>
  \<^verbatim>\<open>plot(self, x, *args, ax='default', **kwargs)\<close>. The options \<open>kws\<close> are what Python
  collects in \<^verbatim>\<open>**kwargs\<close>, so none of them is named \<^verbatim>\<open>x\<close> or \<^verbatim>\<open>ax\<close>. The value of
  \<^verbatim>\<open>get_axis_index(ax)\<close> is computed and not used, but an exception of that call ends
  \<^verbatim>\<open>plot\<close>. An object that is not a surface has no \<^verbatim>\<open>ticklabel_format\<close>.
\<close>

definition plot :: "pyplot \<Rightarrow> session \<Rightarrow> pyval \<Rightarrow> pyval list \<Rightarrow> target \<Rightarrow> kwargs \<Rightarrow> unit outcome"
where
  "plot plt s x args ax kws =
     (let r = plot_target s ax in
      case result_of r of
        Inl e \<Rightarrow> (Inl e, state_of r, events_of r)
      | Inr obj \<Rightarrow>
          (case get_axis_index (state_of r) obj of
             Inl e \<Rightarrow> (Inl e, state_of r, events_of r)
           | Inr ax_index \<Rightarrow>
               (case obj of
                  None \<Rightarrow> (Inl AttributeError, state_of r, events_of r)
                | Some a \<Rightarrow> plot_on plt (state_of r) (events_of r) a x args kws)))"

text \<open>The calls of the line-draw primitive \<^verbatim>\<open>ax.plot\<close> among the events.\<close>

fun draw_calls :: "event list \<Rightarrow> (axes \<times> pyval \<times> pyval list \<times> kwargs) list" where
  "draw_calls [] = []"
| "draw_calls (AxPlot a x args st # ev) = (a, x, args, st) # draw_calls ev"
| "draw_calls (e # ev) = draw_calls ev"

subsection \<open>Plotting many series\<close>

text \<open>Lists and dictionaries are not hashable; a tuple is if its elements are.\<close>

fun hashable :: "pyval \<Rightarrow> bool" where
  "hashable (PList xs) = False"
| "hashable (PDict d) = False"
| "hashable (PTuple xs) = list_all hashable xs"
| "hashable v = True"

text \<open>
  \<^verbatim>\<open>v[key]\<close>: a dictionary is looked up (\<^verbatim>\<open>KeyError\<close> for a missing key, \<^verbatim>\<open>TypeError\<close>
  for an unhashable one); a list, a tuple and a string take an int index; everything
  else raises \<^verbatim>\<open>TypeError\<close>.
\<close>

fun py_getitem :: "pyval \<Rightarrow> pyval \<Rightarrow> error + pyval" where
  "py_getitem (PDict d) key =
     (if hashable key
      then (case map_of d key of None \<Rightarrow> Inl KeyError | Some v \<Rightarrow> Inr v)
      else Inl TypeError)"
| "py_getitem (PList xs) (PInt i) = py_index xs i"
| "py_getitem (PTuple xs) (PInt i) = py_index xs i"
| "py_getitem (PStr cs) (PInt i) =
     (case py_index cs i of Inl e \<Rightarrow> Inl e | Inr c \<Rightarrow> Inr (PStr [c]))"
| "py_getitem v key = Inl TypeError"

text \<open>\<^verbatim>\<open>v[:]\<close>: a copy of a list, a tuple or a string; an exception on anything else.\<close>

fun py_slice_all :: "pyval \<Rightarrow> error + pyval" where
  "py_slice_all (PList xs) = Inr (PList xs)"
| "py_slice_all (PTuple xs) = Inr (PTuple xs)"
| "py_slice_all (PStr cs) = Inr (PStr cs)"
| "py_slice_all v = Inl TypeError"

text \<open>\<^verbatim>\<open>for key in y\<close>: the keys of a dictionary, the elements of a sequence.\<close>

fun py_iter :: "pyval \<Rightarrow> error + pyval list" where
  "py_iter (PDict d) = Inr (map fst d)"
| "py_iter (PList xs) = Inr xs"
| "py_iter (PTuple xs) = Inr xs"
| "py_iter (PStr cs) = Inr (map (\<lambda>c. PStr [c]) cs)"
| "py_iter v = Inl TypeError"

text \<open>\<^verbatim>\<open>len(y)\<close>.\<close>

fun py_len :: "pyval \<Rightarrow> error + nat" where
  "py_len (PDict d) = Inr (length d)"
| "py_len (PList xs) = Inr (length xs)"
| "py_len (PTuple xs) = Inr (length xs)"
| "py_len (PStr cs) = Inr (length cs)"
| "py_len v = Inl TypeError"

text \<open>
  \<^verbatim>\<open>mode.lower()\<close> on the ASCII letters. A character outside ASCII is left as it is; no
  such character becomes a letter of \<^verbatim>\<open>'dict'\<close> or \<^verbatim>\<open>'array'\<close> in Python either.
\<close>

definition lower_char :: "char \<Rightarrow> char" where
  "lower_char c =
     (let n = (of_char c :: nat) in if 65 \<le> n \<and> n \<le> 90 then char_of (n + 32) else c)"

definition lower :: "string \<Rightarrow> string" where
  "lower cs = map lower_char cs"

text \<open>
  \<^verbatim>\<open>try: r = v[key]\<close> \<^verbatim>\<open>except: r = v\<close>, the bare \<^verbatim>\<open>except\<close> catching every exception.
\<close>

definition getitem_or_self :: "pyval \<Rightarrow> pyval \<Rightarrow> pyval" where
  "getitem_or_self v key = (case py_getitem v key of Inl e \<Rightarrow> v | Inr w \<Rightarrow> w)"

text \<open>The inner loop of the \<^verbatim>\<open>'dict'\<close> branch, which fills \<^verbatim>\<open>loop_kwargs\<close>.\<close>

definition dict_loop_kwarg :: "pyval \<Rightarrow> string \<times> pyval \<Rightarrow> kwargs \<Rightarrow> kwargs" where
  "dict_loop_kwarg key kv loop_kwargs =
     dict_set loop_kwargs (fst kv) (getitem_or_self (snd kv) key)"

definition dict_loop_kwargs :: "kwargs \<Rightarrow> pyval \<Rightarrow> kwargs" where
  "dict_loop_kwargs kws key = fold (dict_loop_kwarg key) kws []"

text \<open>The inner loop of the \<^verbatim>\<open>'array'\<close> branch: a string or a tuple is never indexed.\<close>

fun is_str_or_tuple :: "pyval \<Rightarrow> bool" where
  "is_str_or_tuple (PStr cs) = True"
| "is_str_or_tuple (PTuple xs) = True"
| "is_str_or_tuple v = False"

definition array_loop_kwarg :: "pyval \<Rightarrow> string \<times> pyval \<Rightarrow> kwargs \<Rightarrow> kwargs" where
  "array_loop_kwarg ind kv loop_kwargs =
     dict_set loop_kwargs (fst kv)
       (if is_str_or_tuple (snd kv) then snd kv else getitem_or_self (snd kv) ind)"

definition array_loop_kwargs :: "kwargs \<Rightarrow> pyval \<Rightarrow> kwargs" where
  "array_loop_kwargs kws ind = fold (array_loop_kwarg ind) kws []"

text \<open>
  The arguments of the \<^verbatim>\<open>self.plot(x_loop, y[key], **loop_kwargs)\<close> call of one round:
  \<^verbatim>\<open>y[key]\<close> is outside every \<^verbatim>\<open>try\<close>, so its exception ends the method.
\<close>

definition dict_call :: "pyval \<Rightarrow> pyval \<Rightarrow> kwargs \<Rightarrow> pyval \<Rightarrow> error + (pyval \<times> pyval \<times> kwargs)"
where
  "dict_call x y kws key =
     (let loop_kwargs = dict_loop_kwargs kws key;
          x_loop = getitem_or_self x key
      in case py_getitem y key of
           Inl e \<Rightarrow> Inl e
         | Inr yv \<Rightarrow> Inr (x_loop, yv, loop_kwargs))"

text \<open>\<^verbatim>\<open>try: x_loop = x[ind][:]\<close> \<^verbatim>\<open>except: x_loop = x\<close>.\<close>

definition array_x_loop :: "pyval \<Rightarrow> pyval \<Rightarrow> pyval" where
  "array_x_loop x ind =
     (case py_getitem x ind of
        Inl e \<Rightarrow> x
      | Inr row \<Rightarrow> (case py_slice_all row of Inl e \<Rightarrow> x | Inr c \<Rightarrow> c))"

definition array_call :: "pyval \<Rightarrow> pyval \<Rightarrow> kwargs \<Rightarrow> pyval \<Rightarrow> error + (pyval \<times> pyval \<times> kwargs)"
where
  "array_call x y kws ind =
     (let loop_kwargs = array_loop_kwargs kws ind;
          x_loop = array_x_loop x ind
      in case py_getitem y ind of
           Inl e \<Rightarrow> Inl e
         | Inr yv \<Rightarrow> Inr (x_loop, yv, loop_kwargs))"

text \<open>
  The outer loop of either branch: each round computes its arguments and calls \<^verbatim>\<open>plot\<close>;
  the first exception ends the loop, with the session as the earlier rounds left it. The
  call \<^verbatim>\<open>self.plot(x_loop, y[key], **loop_kwargs)\<close> names no target, so it is a call on
  the default surface unless \<^verbatim>\<open>loop_kwargs\<close> has an entry \<^verbatim>\<open>ax\<close>, which Python would bind to
  the parameter \<^verbatim>\<open>ax\<close> of \<^verbatim>\<open>plot\<close>. The model covers the options of \<^verbatim>\<open>add_lines\<close> that
  have no entry \<^verbatim>\<open>ax\<close>.
\<close>

fun add_lines_loop ::
  "pyplot \<Rightarrow> (pyval \<Rightarrow> error + (pyval \<times> pyval \<times> kwargs)) \<Rightarrow> session \<Rightarrow> pyval list \<Rightarrow> unit outcome"
where
  "add_lines_loop plt body s [] = (Inr (), s, [])"
| "add_lines_loop plt body s (k # ks) =
     (case body k of
        Inl e \<Rightarrow> (Inl e, s, [])
      | Inr (x_loop, yv, loop_kwargs) \<Rightarrow>
          (let r = plot plt s x_loop [yv] Default loop_kwargs in
           case result_of r of
             Inl e \<Rightarrow> (Inl e, state_of r, events_of r)
           | Inr u \<Rightarrow>
               (let r' = add_lines_loop plt body (state_of r) ks
                in (result_of r', state_of r', events_of r @ events_of r'))))"

text \<open>\<^verbatim>\<open>add_lines(self, x, y, mode='dict', **kwargs)\<close>, for a string \<^verbatim>\<open>mode\<close>.\<close>

definition add_lines ::
  "pyplot \<Rightarrow> session \<Rightarrow> pyval \<Rightarrow> pyval \<Rightarrow> string \<Rightarrow> kwargs \<Rightarrow> unit outcome"
where
  "add_lines plt s x y mode kws =
     (if lower mode = ''dict'' then
        (case py_iter y of
           Inl e \<Rightarrow> (Inl e, s, [])
         | Inr keys \<Rightarrow> add_lines_loop plt (dict_call x y kws) s keys)
      else if lower mode = ''array'' then
        (case py_len y of
           Inl e \<Rightarrow> (Inl e, s, [])
         | Inr n \<Rightarrow> add_lines_loop plt (array_call x y kws) s (map (\<lambda>i. PInt (int i)) [0..<n]))
      else (Inr (), s, [Print ''Error! Incorrect mode specification. Ignoring method call'']))"

text \<open>
  The arguments of the \<^verbatim>\<open>plot\<close> calls that the \<^verbatim>\<open>'dict'\<close> branch makes when no round
  raises, one per key of \<^verbatim>\<open>y\<close>, in the order of the keys.
\<close>

definition dict_plot_calls :: "pyval \<Rightarrow> pyval \<Rightarrow> kwargs \<Rightarrow> (error + (pyval \<times> pyval \<times> kwargs)) list"
where
  "dict_plot_calls x y kws =
     (case py_iter y of Inl e \<Rightarrow> [] | Inr keys \<Rightarrow> map (dict_call x y kws) keys)"

subsection \<open>Methods that read \<^verbatim>\<open>self.kwargs\<close>\<close>

text \<open>
  \<^verbatim>\<open>get_axes()\<close> returns \<^verbatim>\<open>self.kwargs['ax']\<close>: \<^verbatim>\<open>AttributeError\<close> when the session has no
  attribute \<^verbatim>\<open>kwargs\<close>, \<^verbatim>\<open>KeyError\<close> when the dictionary has no \<^verbatim>\<open>'ax'\<close>.
\<close>

definition get_axes :: "session \<Rightarrow> error + pyval" where
  "get_axes s =
     (case kwargs s of
        None \<Rightarrow> Inl AttributeError
      | Some kw \<Rightarrow> (case map_of kw ''ax'' of None \<Rightarrow> Inl KeyError | Some v \<Rightarrow> Inr v))"

text \<open>
  \<^verbatim>\<open>autoscale(self, enable=True, axis='both', tight=None)\<close>. Only a surface has a
  method \<^verbatim>\<open>autoscale\<close>.
\<close>

definition pop_limit :: "string \<Rightarrow> pyval \<Rightarrow> pyval \<Rightarrow> kwargs \<Rightarrow> kwargs" where
  "pop_limit lim which axis kw =
     (if lim \<in> set (map fst kw) \<and> (axis = which \<or> axis = PStr ''both'')
      then dict_pop kw lim else kw)"

definition autoscale :: "pyplot \<Rightarrow> session \<Rightarrow> pyval \<Rightarrow> pyval \<Rightarrow> pyval \<Rightarrow> unit outcome" where
  "autoscale plt s enable axis tight =
     (case get_axes s of
        Inl e \<Rightarrow> (Inl e, s, [])
      | Inr (PAxes a) \<Rightarrow>
          (case kwargs s of
             None \<Rightarrow> (Inl AttributeError, s, [AxAutoscale a enable axis tight])
           | Some kw \<Rightarrow>
               (Inr (),
                s\<lparr>kwargs := Some (pop_limit ''ylim'' (PStr ''y'') axis
                                    (pop_limit ''xlim'' (PStr ''x'') axis kw))\<rparr>,
                AxAutoscale a enable axis tight # redraw plt))
      | Inr v \<Rightarrow> (Inl AttributeError, s, []))"

text \<open>
  \<^verbatim>\<open>_delete_uniqueparams()\<close>: keeps the colour cycle, then removes the options that are
  unique to one plot from \<^verbatim>\<open>self.kwargs\<close>. No method of the class calls it.
\<close>

definition uniqueparams :: "string list" where
  "uniqueparams = [''color'', ''label'', ''marker'', ''linestyle'', ''colorcycle'']"

definition delete_uniqueparams :: "session \<Rightarrow> unit outcome" where
  "delete_uniqueparams s =
     (case kwargs s of
        None \<Rightarrow> (Inl AttributeError, s, [])
      | Some kw \<Rightarrow>
          (let s1 = (case map_of kw ''colorcycle'' of
                       None \<Rightarrow> s
                     | Some v \<Rightarrow> s\<lparr>colorcycle := v\<rparr>)
           in (Inr (), s1\<lparr>kwargs := Some (fold (\<lambda>param d. dict_pop d param) uniqueparams kw)\<rparr>,
               [])))"

text \<open>The table of aliases, \<^verbatim>\<open>_alias_dict\<close>.\<close>

definition alias_dict :: "(string \<times> string) list" where
  "alias_dict =
     [(''lw'', ''linewidth''), (''ls'', ''linestyle''), (''mfc'', ''markerfacecolor''),
      (''mew'', ''markeredgewidth''), (''mec'', ''markeredgecolor''), (''ms'', ''markersize''),
      (''mev'', ''markevery''), (''c'', ''color''), (''fs'', ''fontsize'')]"

subsection \<open>Sessions as the constructor leaves them\<close>

text \<open>
  Every grid index that the loops over \<^verbatim>\<open>_figure_settings['subplots']\<close> visit is inside
  the array of surfaces. The constructor establishes this, and no method writes the array
  or the counts.
\<close>

definition in_grid :: "session \<Rightarrow> int \<times> int \<Rightarrow> bool" where
  "in_grid s ij = (case axes_at s [fst ij, snd ij] of Inl e \<Rightarrow> False | Inr a \<Rightarrow> True)"

definition grid_ok :: "session \<Rightarrow> bool" where
  "grid_ok s = list_all (in_grid s) (grid_indices s)"

subsection \<open>Two sessions\<close>

text \<open>
  The sessions that \<^verbatim>\<open>CcfePlot()\<close> and \<^verbatim>\<open>CcfePlot(2, 2)\<close> return, written out.
\<close>

definition session_1x1 :: session where
  "session_1x1 =
     \<lparr>axes_grid = [[Axes 0 0]], subplots = (1, 1),
      figure_settings = [(''figsize'', PNone), (''dpi'', PInt 100),
                         (''sharex'', PInt 0), (''sharey'', PInt 0)],
      plot_settings_default = [(''linestyle'', PStr ''-'')], showlegend = PInt 1,
      legends = [], default_ax = Some (Axes 0 0), colorcycle = PList [], kwargs = None\<rparr>"

definition session_2x2 :: session where
  "session_2x2 =
     \<lparr>axes_grid = [[Axes 0 0, Axes 0 1], [Axes 1 0, Axes 1 1]], subplots = (2, 2),
      figure_settings = [(''figsize'', PNone), (''dpi'', PInt 100),
                         (''sharex'', PInt 0), (''sharey'', PInt 0)],
      plot_settings_default = [(''linestyle'', PStr ''-'')], showlegend = PInt 1,
      legends = [], default_ax = Some (Axes 0 0), colorcycle = PList [], kwargs = None\<rparr>"

text \<open>The option sets that the line-draw primitive received, one per call.\<close>

definition drawn_settings :: "event list \<Rightarrow> kwargs list" where
  "drawn_settings ev = map (\<lambda>c. snd (snd (snd c))) (draw_calls ev)"

text \<open>
  The entry that \<^verbatim>\<open>_update_legend((i, j))\<close> stores for a grid index, and the renderer
  calls it makes.
\<close>

definition legend_entry :: "session \<Rightarrow> int \<times> int \<Rightarrow> target \<times> legend option" where
  "legend_entry s ij =
     (IdxTuple [fst ij, snd ij],
      if truthy (showlegend s) then Some (Legend (Axes (nat (fst ij)) (nat (snd ij)))) else None)"

definition legend_events :: "session \<Rightarrow> int \<times> int \<Rightarrow> event list" where
  "legend_events s ij =
     (if truthy (showlegend s)
      then [AxLegend (Axes (nat (fst ij)) (nat (snd ij))),
            Draggable (Legend (Axes (nat (fst ij)) (nat (snd ij))))]
      else [])"

section \<open>Properties\<close>

lemmas outcome_defs = result_of_def state_of_def events_of_def

subsection \<open>Construction and resolution of index pairs\<close>

lemma py_index_pair: "py_index [r, c] 0 = Inr r" "py_index [r, c] 1 = Inr c"
  by (simp_all add: py_index_def)

lemma py_index_map_upt:
  "py_index (map f [0..<n]) i =
     (if - int n \<le> i \<and> i < int n then Inr (f (nat (i mod int n))) else Inl IndexError)"
proof (cases "0 \<le> i \<and> i < int n")
  case True
  then show ?thesis by (simp add: py_index_def nat_less_iff)
next
  case False
  show ?thesis
  proof (cases "- int n \<le> i \<and> i < 0")
    case True
    have "i mod int n = (int n + i) mod int n" by simp
    also have "\<dots> = int n + i"
      using True by (intro mod_pos_pos_trivial) linarith+
    finally have m: "i mod int n = int n + i" .
    from True have "nat (int n + i) < n" by linarith
    with True m show ?thesis by (simp add: py_index_def)
  next
    case False
    with \<open>\<not> (0 \<le> i \<and> i < int n)\<close> show ?thesis by (auto simp add: py_index_def)
  qed
qed

lemma np_index_map_upt:
  "np_index (map f [0..<n]) i =
     (if overflows i then Inl OverflowError
      else if - int n \<le> i \<and> i < int n then Inr (f (nat (i mod int n)))
      else Inl IndexError)"
  by (simp add: np_index_def py_index_map_upt)

lemma axes_at_grid:
  assumes "axes_grid s = map (\<lambda>i. map (\<lambda>j. Axes i j) [0..<nc]) [0..<nr]"
  shows "axes_at s [r, c] =
     (if overflows r then Inl OverflowError
      else if \<not> (- int nr \<le> r \<and> r < int nr) then Inl IndexError
      else if overflows c then Inl OverflowError
      else if \<not> (- int nc \<le> c \<and> c < int nc) then Inl IndexError
      else Inr (Axes (nat (r mod int nr)) (nat (c mod int nc))))"
  by (simp add: axes_at_def py_index_pair assms np_index_map_upt)

text \<open>
  With positive counts and no extra positional argument the constructor returns a
  session: the grid is the array of new surfaces and the default surface is the one at
  row 0, column 0.
\<close>

lemma init_ok:
  assumes "1 \<le> nrows" "1 \<le> ncolumns"
  shows "init plt nrows ncolumns sharex sharey [] kws =
     (Inr ((fold (init_kwarg plt) kws (blank_session plt))
             \<lparr>axes_grid := map (\<lambda>i. map (\<lambda>j. Axes i j) [0..<nat ncolumns]) [0..<nat nrows],
              subplots := (nrows, ncolumns), default_ax := Some (Axes 0 0)\<rparr>),
      [Subplots nrows ncolumns (figure_settings (fold (init_kwarg plt) kws (blank_session plt))),
       Sca (Axes 0 0)])"
proof -
  let ?s1 = "fold (init_kwarg plt) kws (blank_session plt)"
  let ?s2 = "?s1\<lparr>axes_grid := map (\<lambda>i. map (\<lambda>j. Axes i j) [0..<nat ncolumns]) [0..<nat nrows],
              subplots := (nrows, ncolumns)\<rparr>"
  have g: "axes_at ?s2 [0, 0] = Inr (Axes 0 0)"
    using assms
    by (subst axes_at_grid [where nc = "nat ncolumns" and nr = "nat nrows"])
      (auto simp add: overflows_def)
  have sd: "set_default_axis ?s2 (IdxList [0, 0]) =
      (Inr (Axes 0 0), ?s2\<lparr>default_ax := Some (Axes 0 0)\<rparr>, [Sca (Axes 0 0)])"
    by (simp add: set_default_axis_def g)
  show ?thesis
    using assms by (simp add: init_def plt_subplots_def Let_def sd outcome_defs)
qed

lemma init_1x1:
  "init (matplotlib i) 1 1 (PInt 0) (PInt 0) [] [] =
     (Inr session_1x1,
      [Subplots 1 1 [(''figsize'', PNone), (''dpi'', PInt 100),
                     (''sharex'', PInt 0), (''sharey'', PInt 0)],
       Sca (Axes 0 0)])"
  by (simp add: init_def plt_subplots_def set_default_axis_def axes_at_def np_index_def overflows_def py_index_def
      outcome_defs Let_def blank_session_def session_1x1_def figure_defaults_def plot_defaults_def
      matplotlib_def)

lemma init_2x2:
  "init (matplotlib i) 2 2 (PInt 0) (PInt 0) [] [] =
     (Inr session_2x2,
      [Subplots 2 2 [(''figsize'', PNone), (''dpi'', PInt 100),
                     (''sharex'', PInt 0), (''sharey'', PInt 0)],
       Sca (Axes 0 0)])"
  by (simp add: init_def plt_subplots_def set_default_axis_def axes_at_def np_index_def overflows_def py_index_def
      outcome_defs Let_def blank_session_def session_2x2_def figure_defaults_def plot_defaults_def
      matplotlib_def numeral_2_eq_2 upt_rec)

lemma axes_at_default_ax: "axes_at (s\<lparr>default_ax := d\<rparr>) ix = axes_at s ix"
  by (simp add: axes_at_def cong: sum.case_cong)

lemma axes_at_legends: "axes_at (s\<lparr>legends := l\<rparr>) ix = axes_at s ix"
  by (simp add: axes_at_def cong: sum.case_cong)

lemma grid_ok_default_ax: "grid_ok (s\<lparr>default_ax := d\<rparr>) = grid_ok s"
  by (simp add: grid_ok_def in_grid_def [abs_def] grid_indices_def axes_at_default_ax)

lemma grid_ok_legends: "grid_ok (s\<lparr>legends := l\<rparr>) = grid_ok s"
  by (simp add: grid_ok_def in_grid_def [abs_def] grid_indices_def axes_at_legends)

lemma get_axis_index_loop_ok:
  "list_all (in_grid s) ijs \<Longrightarrow> \<exists>r. get_axis_index_loop s obj ijs = Inr r"
  by (induction s obj ijs rule: get_axis_index_loop.induct)
    (auto simp add: in_grid_def split: sum.splits)

lemma get_axis_index_ok: "grid_ok s \<Longrightarrow> \<exists>r. get_axis_index s obj = Inr r"
  by (simp add: grid_ok_def get_axis_index_def get_axis_index_loop_ok)

lemma grid_ok_sessions: "grid_ok session_1x1" "grid_ok session_2x2"
  by (simp_all add: grid_ok_def in_grid_def grid_indices_def arange_def axes_at_def np_index_def overflows_def py_index_def
      session_1x1_def session_2x2_def numeral_2_eq_2 upt_rec)

text \<open>
  C3, as the code has it. The claim says that every index pair outside \<open>0 \<le> r < rows\<close>,
  \<open>0 \<le> c < columns\<close> fails with an index-out-of-range error. The lookup
  \<^verbatim>\<open>self._axes[ax[0]][ax[1]]\<close> has no bounds check of its own and indexes a numpy array.
  There a negative index counts from the end: on a 2 by 2 grid the pair \<open>(-1, -1)\<close>
  resolves to the surface at row 1, column 1. And an index that does not fit numpy's
  signed 64-bit index type fails in the conversion, not in the bounds check: the pair
  \<open>(2^63, 0)\<close> raises \<^verbatim>\<open>OverflowError\<close>.
\<close>

theorem negative_index_pair_counterexample:
  "construct_then_resolve (matplotlib False) 2 2 [] (IdxTuple [- 1, - 1]) = Inr (Axes 1 1)
   \<and> construct_then_resolve (matplotlib False) 2 2 [] (IdxTuple [9223372036854775808, 0]) =
       Inl OverflowError"
  by (simp add: construct_then_resolve_def init_def plt_subplots_def set_default_axis_def
      axes_at_def np_index_def overflows_def py_index_def outcome_defs Let_def)

text \<open>
  C3, amended. For a session that the constructor has returned for \<open>rows \<ge> 1\<close> and
  \<open>columns \<ge> 1\<close>, an index pair \<open>(r, c)\<close> of ints, given as a tuple or as a list, resolves
  exactly when \<open>- rows \<le> r < rows\<close> and \<open>- columns \<le> c < columns\<close> (and neither index is in
  the range \<open>2^63 \<le> i < 2^64\<close>); the result is the surface at row \<open>r mod rows\<close>, column
  \<open>c mod columns\<close>, which for \<open>0 \<le> r < rows\<close>, \<open>0 \<le> c < columns\<close> is the surface at
  \<open>(r, c)\<close>. Every other pair fails, the row index being looked at first: an index with
  \<open>2^63 \<le> i < 2^64\<close> fails with \<^verbatim>\<open>OverflowError\<close>, any other index outside its range with
  \<^verbatim>\<open>IndexError\<close>.
\<close>

theorem resolve_index_pair:
  assumes "1 \<le> nrows" and "1 \<le> ncolumns"
    and "fst (init plt nrows ncolumns sharex sharey [] kws) = Inr s"
    and "t = IdxTuple [r, c] \<or> t = IdxList [r, c]"
  shows "get_axis s t =
     (if overflows r then Inl OverflowError
      else if \<not> (- nrows \<le> r \<and> r < nrows) then Inl IndexError
      else if overflows c then Inl OverflowError
      else if \<not> (- ncolumns \<le> c \<and> c < ncolumns) then Inl IndexError
      else Inr (Axes (nat (r mod nrows)) (nat (c mod ncolumns))))"
proof -
  from assms(3) have s: "s = (fold (init_kwarg plt) kws (blank_session plt))
             \<lparr>axes_grid := map (\<lambda>i. map (\<lambda>j. Axes i j) [0..<nat ncolumns]) [0..<nat nrows],
              subplots := (nrows, ncolumns), default_ax := Some (Axes 0 0)\<rparr>"
    by (simp add: init_ok [OF assms(1,2)])
  have a: "axes_grid s = map (\<lambda>i. map (\<lambda>j. Axes i j) [0..<nat ncolumns]) [0..<nat nrows]"
    by (simp add: s)
  have "axes_at s [r, c] =
     (if overflows r then Inl OverflowError
      else if \<not> (- nrows \<le> r \<and> r < nrows) then Inl IndexError
      else if overflows c then Inl OverflowError
      else if \<not> (- ncolumns \<le> c \<and> c < ncolumns) then Inl IndexError
      else Inr (Axes (nat (r mod nrows)) (nat (c mod ncolumns))))"
    using assms(1,2) by (simp add: axes_at_grid [OF a])
  with assms(4) show ?thesis by auto
qed

theorem resolve_index_pair_witness:
  "fst (init (matplotlib False) 2 2 (PInt 0) (PInt 0) [] []) = Inr session_2x2
   \<and> get_axis session_2x2 (IdxTuple [1, 0]) = Inr (Axes 1 0)
   \<and> get_axis session_2x2 (IdxList [- 2, - 1]) = Inr (Axes 0 1)
   \<and> get_axis session_2x2 (IdxTuple [2, 0]) = Inl IndexError
   \<and> get_axis session_2x2 (IdxTuple [0, - 3]) = Inl IndexError
   \<and> get_axis session_2x2 (IdxTuple [0, 9223372036854775808]) = Inl OverflowError"
proof -
  have i: "fst (init (matplotlib False) 2 2 (PInt 0) (PInt 0) [] []) = Inr session_2x2"
    by (simp add: init_2x2)
  have one: "(1::int) \<le> 2" by simp
  show ?thesis
    using i
      resolve_index_pair [OF one one i, of "IdxTuple [1, 0]" 1 0]
      resolve_index_pair [OF one one i, of "IdxList [- 2, - 1]" "- 2" "- 1"]
      resolve_index_pair [OF one one i, of "IdxTuple [2, 0]" 2 0]
      resolve_index_pair [OF one one i, of "IdxTuple [0, - 3]" 0 "- 3"]
      resolve_index_pair [OF one one i, of "IdxTuple [0, 9223372036854775808]" 0
        9223372036854775808]
    by (simp add: overflows_def)
qed

subsection \<open>Unsupported inputs\<close>

text \<open>
  C9. A constructor call with at least one extra positional argument raises
  \<^verbatim>\<open>NotImplementedError\<close> before any call into the renderer, whatever the other arguments
  are; \<^verbatim>\<open>get_axis\<close> and \<^verbatim>\<open>set_default_axis\<close> raise \<^verbatim>\<open>NotImplementedError\<close> on every bare
  int, and the session that \<^verbatim>\<open>set_default_axis\<close> leaves is the one it was given.
\<close>

theorem unsupported_inputs_raise:
  assumes "args \<noteq> []"
  shows "init plt nrows ncolumns sharex sharey args kws = (Inl NotImplementedError, [])
    \<and> get_axis s (BareInt n) = Inl NotImplementedError
    \<and> set_default_axis s (BareInt n) = (Inl NotImplementedError, s, [])"
  using assms by (simp add: init_def set_default_axis_def)

theorem unsupported_inputs_raise_witness:
  "init (matplotlib False) 1 1 (PInt 0) (PInt 0) [PList [PInt 1, PInt 2]] [] =
      (Inl NotImplementedError, [])
    \<and> get_axis session_1x1 (BareInt 0) = Inl NotImplementedError
    \<and> set_default_axis session_1x1 (BareInt 0) = (Inl NotImplementedError, session_1x1, [])"
  using unsupported_inputs_raise [of "[PList [PInt 1, PInt 2]]" "matplotlib False" 1 1
      "PInt 0" "PInt 0" "[]" session_1x1 0]
  by simp

subsection \<open>An unrecognised mode\<close>

text \<open>
  C8. When the lower-cased mode string is neither \<^verbatim>\<open>'dict'\<close> nor \<^verbatim>\<open>'array'\<close>,
  \<^verbatim>\<open>add_lines\<close> returns normally, the session is the one it was given, the only event is
  the printed message, and so no line is drawn.
\<close>

theorem add_lines_unrecognised_mode:
  assumes "lower mode \<noteq> ''dict''" and "lower mode \<noteq> ''array''"
  shows "add_lines plt s x y mode kws =
      (Inr (), s, [Print ''Error! Incorrect mode specification. Ignoring method call''])
    \<and> draw_calls (events_of (add_lines plt s x y mode kws)) = []"
  using assms by (simp add: add_lines_def outcome_defs)

theorem add_lines_unrecognised_mode_witness:
  "lower ''bogus'' \<noteq> ''dict'' \<and> lower ''bogus'' \<noteq> ''array''
   \<and> add_lines (matplotlib False) session_1x1 (PList []) (PDict [])
        ''bogus'' [(''color'', PStr ''red'')] =
      (Inr (), session_1x1,
       [Print ''Error! Incorrect mode specification. Ignoring method call''])"
proof -
  have a: "lower ''bogus'' \<noteq> ''dict''" by (simp add: lower_def lower_char_def)
  have b: "lower ''bogus'' \<noteq> ''array''" by (simp add: lower_def lower_char_def)
  show ?thesis
    using a b add_lines_unrecognised_mode [OF a b, of "matplotlib False" session_1x1
        "PList []" "PDict []" "[(''color'', PStr ''red'')]"]
    by simp
qed

subsection \<open>One plot call\<close>

lemma draw_calls_append: "draw_calls (ev @ ev') = draw_calls ev @ draw_calls ev'"
  by (induction ev rule: draw_calls.induct) simp_all

lemma draw_calls_redraw: "draw_calls (redraw plt) = []"
  by (simp add: redraw_def)

lemma map_of_dict_set: "map_of (dict_set d k v) = (map_of d)(k \<mapsto> v)"
  by (induction d k v rule: dict_set.induct) auto

lemma dict_set_new: "k \<notin> fst ` set d \<Longrightarrow> dict_set d k v = d @ [(k, v)]"
  by (induction d k v rule: dict_set.induct) auto

lemma map_of_merge_kwargs:
  "key \<notin> fst ` set kws \<Longrightarrow> map_of (fold (merge_kwarg plt) kws d) key = map_of d key"
  by (induction kws arbitrary: d) (auto simp add: merge_kwarg_def map_of_dict_set)

text \<open>An option that the call does not supply is passed with the session's default.\<close>

lemma plot_settings_unsupplied:
  "key \<notin> fst ` set kws \<Longrightarrow>
   map_of (plot_settings_of plt s kws) key = map_of (plot_settings_default s) key"
  by (simp add: plot_settings_of_def map_of_merge_kwargs)

lemma update_legend_handle:
  "update_legend s (Handle a) =
     (Inr (if truthy (showlegend s) then Some (Legend a) else None),
      s\<lparr>legends := dict_set (legends s) (Handle a)
                     (if truthy (showlegend s) then Some (Legend a) else None)\<rparr>,
      if truthy (showlegend s) then [AxLegend a, Draggable (Legend a)] else [])"
  by (simp add: update_legend_def Let_def)

text \<open>What a plot call does once its target is resolved to a surface.\<close>

lemma plot_on_eq:
  "plot_on plt s1 ev0 a x args kws =
     (Inr (),
      s1\<lparr>legends := dict_set (legends s1) (Handle a)
                      (if truthy (showlegend s1) then Some (Legend a) else None)\<rparr>,
      ev0 @ [TicklabelFormat a, AxPlot a x args (plot_settings_of plt s1 kws)]
        @ (if truthy (showlegend s1) then [AxLegend a, Draggable (Legend a)] else [])
        @ (if isinteractive plt then redraw plt else []))"
  by (simp add: plot_on_def outcome_defs update_legend_handle Let_def)

lemma plot_resolved:
  assumes "plot_target s ax = (Inr (Some a), s1, ev0)" and "grid_ok s1"
  shows "plot plt s x args ax kws =
     (Inr (),
      s1\<lparr>legends := dict_set (legends s1) (Handle a)
                      (if truthy (showlegend s1) then Some (Legend a) else None)\<rparr>,
      ev0 @ [TicklabelFormat a, AxPlot a x args (plot_settings_of plt s1 kws)]
        @ (if truthy (showlegend s1) then [AxLegend a, Draggable (Legend a)] else [])
        @ (if isinteractive plt then redraw plt else []))"
proof -
  from get_axis_index_ok [OF assms(2)] obtain r where "get_axis_index s1 (Some a) = Inr r" ..
  then show ?thesis
    by (simp add: plot_def assms(1) outcome_defs Let_def plot_on_eq)
qed

lemma plot_target_cases:
  "(\<exists>e. plot_target s ax = (Inl e, s, []))
   \<or> plot_target s ax = (Inr None, s, [])
   \<or> (\<exists>a. plot_target s ax = (Inr (Some a), s, []))
   \<or> (\<exists>a. plot_target s ax = (Inr (Some a), s\<lparr>default_ax := Some a\<rparr>, [Sca a]))"
  by (cases ax) (auto simp add: set_default_axis_def outcome_defs split: option.splits sum.splits)

lemma plot_target_index:
  assumes "t = IdxTuple ix \<or> t = IdxList ix" and "get_axis s t = Inr a"
  shows "plot_target s t = (Inr (Some a), s\<lparr>default_ax := Some a\<rparr>, [Sca a])"
  using assms by (auto simp add: set_default_axis_def outcome_defs)

lemma plot_target_default:
  assumes "default_ax s = Some a"
  shows "plot_target s Default = (Inr (Some a), s, [])"
  using assms by simp

text \<open>A plot call writes neither the line-plot defaults nor \<^verbatim>\<open>self.kwargs\<close>.\<close>

lemma plot_keeps_defaults:
  "plot_settings_default (state_of (plot plt s x args ax kws)) = plot_settings_default s"
  using plot_target_cases [of s ax]
  by (auto simp add: plot_def outcome_defs plot_on_eq Let_def split: sum.splits option.splits)

lemma plot_keeps_kwargs: "kwargs (state_of (plot plt s x args ax kws)) = kwargs s"
  using plot_target_cases [of s ax]
  by (auto simp add: plot_def outcome_defs plot_on_eq Let_def split: sum.splits option.splits)

lemma plot_keeps_grid_ok: "grid_ok (state_of (plot plt s x args ax kws)) = grid_ok s"
  using plot_target_cases [of s ax]
  by (auto simp add: plot_def outcome_defs plot_on_eq Let_def grid_ok_default_ax grid_ok_legends
      split: sum.splits option.splits)

lemma plot_success_draws:
  assumes "result_of (plot plt s x args ax kws) = Inr ()"
  shows "drawn_settings (events_of (plot plt s x args ax kws)) = [plot_settings_of plt s kws]"
  using plot_target_cases [of s ax] assms
  by (auto simp add: plot_def outcome_defs plot_on_eq Let_def drawn_settings_def
      draw_calls_append draw_calls_redraw plot_settings_of_def split: sum.splits option.splits)

lemma plot_default_ok:
  assumes "default_ax s = Some a" and "grid_ok s"
  shows "result_of (plot plt s x args Default kws) = Inr ()"
    and "default_ax (state_of (plot plt s x args Default kws)) = Some a"
    and "draw_calls (events_of (plot plt s x args Default kws)) =
           [(a, x, args, plot_settings_of plt s kws)]"
  by (simp_all add: plot_resolved [OF plot_target_default [OF assms(1)] assms(2)] outcome_defs
      assms draw_calls_append draw_calls_redraw)

lemmas plot_eval = plot_def plot_on_def get_axis_index_def grid_indices_def arange_def
  update_legend_def set_default_axis_def axes_at_def np_index_def overflows_def py_index_def
  plot_settings_of_def merge_kwarg_def hasattr_def outcome_defs Let_def redraw_def

subsection \<open>Merging of defaults and per-call options\<close>

lemma merge_kwarg_skip:
  "\<not> hasattr (plot_attrs plt) (fst kv) \<Longrightarrow> merge_kwarg plt kv d = d"
  by (simp add: merge_kwarg_def)

lemma plot_settings_skip:
  assumes "\<not> hasattr (plot_attrs plt) key"
  shows "plot_settings_of plt s (kws1 @ (key, v) # kws2) = plot_settings_of plt s (kws1 @ kws2)"
  using assms by (simp add: plot_settings_of_def merge_kwarg_skip)

text \<open>
  With matplotlib as it is, a call none of whose option names is an attribute of a
  function object passes exactly the session's defaults.
\<close>

lemma plot_settings_matplotlib:
  assumes "\<And>key. key \<in> fst ` set kws \<Longrightarrow> key \<notin> set function_attributes"
  shows "plot_settings_of (matplotlib i) s kws = plot_settings_default s"
proof -
  have "fold (merge_kwarg (matplotlib i)) kws d = d" for d
    using assms
    by (induction kws arbitrary: d) (auto simp add: merge_kwarg_def hasattr_def matplotlib_def)
  then show ?thesis by (simp add: plot_settings_of_def)
qed

text \<open>
  C1, at a failing input. The docstrings of \<^verbatim>\<open>plot\<close> and \<^verbatim>\<open>__init__\<close> list
  \<^verbatim>\<open>linestyle\<close> and \<^verbatim>\<open>color\<close> among the plot parameters that a call may pass, and the claim
  says that a supplied value replaces the session's default. The loop of \<^verbatim>\<open>plot\<close> stores a
  per-call option only if \<^verbatim>\<open>hasattr(plt.plot, key)\<close> holds, which asks for an attribute
  of the function object: on the session that \<^verbatim>\<open>CcfePlot()\<close> returns, the call
  \<^verbatim>\<open>plot([1, 2, 3], linestyle='--', color='red')\<close> draws with the default
  \<^verbatim>\<open>linestyle='-'\<close> and with no colour.
\<close>

theorem plot_drops_supplied_options:
  "fst (init (matplotlib False) 1 1 (PInt 0) (PInt 0) [] []) = Inr session_1x1
   \<and> drawn_settings (events_of (plot (matplotlib False) session_1x1
        (PList [PInt 1, PInt 2, PInt 3]) [] Default
        [(''linestyle'', PStr ''--''), (''color'', PStr ''red'')])) =
      [[(''linestyle'', PStr ''-'')]]"
proof -
  have "result_of (plot (matplotlib False) session_1x1 (PList [PInt 1, PInt 2, PInt 3]) []
        Default [(''linestyle'', PStr ''--''), (''color'', PStr ''red'')]) = Inr ()"
    by (rule plot_default_ok(1) [OF _ grid_ok_sessions(1)]) (simp add: session_1x1_def)
  then have "drawn_settings (events_of (plot (matplotlib False) session_1x1
        (PList [PInt 1, PInt 2, PInt 3]) []
        Default [(''linestyle'', PStr ''--''), (''color'', PStr ''red'')])) =
      [plot_settings_of (matplotlib False) session_1x1
         [(''linestyle'', PStr ''--''), (''color'', PStr ''red'')]]"
    by (rule plot_success_draws)
  moreover have "plot_settings_of (matplotlib False) session_1x1
       [(''linestyle'', PStr ''--''), (''color'', PStr ''red'')] = [(''linestyle'', PStr ''-'')]"
    by (simp add: plot_settings_of_def merge_kwarg_def hasattr_def matplotlib_def
        function_attributes_def session_1x1_def)
  ultimately show ?thesis by (simp add: init_1x1)
qed

lemma alias_names_not_attributes:
  assumes "(alias, name) \<in> set alias_dict"
  shows "\<not> hasattr function_attributes alias" and "\<not> hasattr function_attributes name"
  using assms by (auto simp add: alias_dict_def hasattr_def function_attributes_def)

text \<open>
  With matplotlib as it is, an option passed under a name of the alias table, short or
  canonical, is dropped: the option set is the one of the call without it.
\<close>

lemma alias_and_name_both_dropped:
  assumes "(alias, name) \<in> set alias_dict"
  shows "plot_settings_of (matplotlib i) s (kws1 @ (alias, v) # kws2) =
           plot_settings_of (matplotlib i) s (kws1 @ kws2)"
    and "plot_settings_of (matplotlib i) s (kws1 @ (name, v) # kws2) =
           plot_settings_of (matplotlib i) s (kws1 @ kws2)"
proof -
  have a: "\<not> hasattr (plot_attrs (matplotlib i)) alias"
    and n: "\<not> hasattr (plot_attrs (matplotlib i)) name"
    using alias_names_not_attributes [OF assms] by (simp_all add: matplotlib_def)
  show "plot_settings_of (matplotlib i) s (kws1 @ (alias, v) # kws2) =
           plot_settings_of (matplotlib i) s (kws1 @ kws2)"
    by (rule plot_settings_skip [OF a])
  show "plot_settings_of (matplotlib i) s (kws1 @ (name, v) # kws2) =
           plot_settings_of (matplotlib i) s (kws1 @ kws2)"
    by (rule plot_settings_skip [OF n])
qed


subsection \<open>From one plot call to the next\<close>

text \<open>
  C7. Whatever an earlier plot call was given, a later plot call that succeeds hands the
  line-draw primitive the option set computed from the session's defaults as they were
  before the earlier call and from its own options; an option that the later call does
  not supply has the value of the session default, or is not passed when there is none.
  So a label, colour, marker or line style of the earlier call is not carried over.
\<close>

theorem per_call_options_do_not_persist:
  assumes "result_of (plot plt (state_of (plot plt s x1 args1 ax1 kws1)) x2 args2 ax2 kws2) = Inr ()"
    and "key \<notin> fst ` set kws2"
  shows "drawn_settings
           (events_of (plot plt (state_of (plot plt s x1 args1 ax1 kws1)) x2 args2 ax2 kws2)) =
           [plot_settings_of plt s kws2]
     \<and> map_of (plot_settings_of plt s kws2) key = map_of (plot_settings_default s) key"
proof -
  have "plot_settings_of plt (state_of (plot plt s x1 args1 ax1 kws1)) kws2 =
        plot_settings_of plt s kws2"
    by (simp add: plot_settings_of_def plot_keeps_defaults)
  with plot_success_draws [OF assms(1)] plot_settings_unsupplied [OF assms(2)]
  show ?thesis by simp
qed

theorem per_call_options_do_not_persist_witness:
  "drawn_settings (events_of (plot ((matplotlib False)\<lparr>plot_attrs := [''label'']\<rparr>) session_1x1
        (PList [PInt 1, PInt 2]) [] Default [(''label'', PStr ''A'')])) =
      [[(''linestyle'', PStr ''-''), (''label'', PStr ''A'')]]
   \<and> drawn_settings (events_of (plot ((matplotlib False)\<lparr>plot_attrs := [''label'']\<rparr>)
        (state_of (plot ((matplotlib False)\<lparr>plot_attrs := [''label'']\<rparr>) session_1x1
           (PList [PInt 1, PInt 2]) [] Default [(''label'', PStr ''A'')]))
        (PList [PInt 3, PInt 4]) [] Default [])) = [[(''linestyle'', PStr ''-'')]]
   \<and> drawn_settings (events_of (plot (matplotlib False)
        (state_of (plot (matplotlib False) session_1x1 (PList [PInt 1, PInt 2]) [] Default
           [(''label'', PStr ''A'')]))
        (PList [PInt 3, PInt 4]) [] Default [])) = [[(''linestyle'', PStr ''-'')]]
   \<and> map_of (plot_settings_of (matplotlib False) session_1x1 []) ''label'' = None"
proof -
  let ?plt = "(matplotlib False)\<lparr>plot_attrs := [''label'']\<rparr>"
  let ?p1 = "plot (matplotlib False) session_1x1 (PList [PInt 1, PInt 2]) [] Default
           [(''label'', PStr ''A'')]"
  let ?q1 = "plot ?plt session_1x1 (PList [PInt 1, PInt 2]) [] Default
           [(''label'', PStr ''A'')]"
  have h: "result_of (plot (matplotlib False) (state_of ?p1) (PList [PInt 3, PInt 4]) [] Default [])
      = Inr ()"
    by (simp add: plot_eval session_1x1_def matplotlib_def)
  have h': "result_of (plot ?plt (state_of ?q1) (PList [PInt 3, PInt 4]) [] Default []) = Inr ()"
    by (simp add: plot_eval session_1x1_def matplotlib_def)
  have k: "''label'' \<notin> fst ` set ([] :: kwargs)" by simp
  have d: "drawn_settings (events_of ?q1) = [[(''linestyle'', PStr ''-''), (''label'', PStr ''A'')]]"
    by (simp add: plot_eval session_1x1_def matplotlib_def drawn_settings_def)
  show ?thesis
    using per_call_options_do_not_persist [OF h k] per_call_options_do_not_persist [OF h' k] d
    by (simp add: plot_settings_of_def session_1x1_def)
qed

text \<open>
  C10. On a session as the constructor leaves it (every grid index inside the array), a
  plot call whose target is an index pair, given as a tuple or as a list, that
  resolves to a surface succeeds, draws on that surface and leaves it as the session's
  default surface; a following plot call without a target succeeds, draws on that same
  surface and leaves the default where it is, so the calls after it do the same.
\<close>

theorem explicit_target_becomes_default:
  assumes "t = IdxTuple ix \<or> t = IdxList ix" and "get_axis s t = Inr a" and "grid_ok s"
  shows "result_of (plot plt s x args t kws) = Inr ()
     \<and> default_ax (state_of (plot plt s x args t kws)) = Some a
     \<and> draw_calls (events_of (plot plt s x args t kws)) = [(a, x, args, plot_settings_of plt s kws)]
     \<and> result_of (plot plt (state_of (plot plt s x args t kws)) x' args' Default kws') = Inr ()
     \<and> default_ax (state_of (plot plt (state_of (plot plt s x args t kws)) x' args' Default kws'))
         = Some a
     \<and> draw_calls (events_of (plot plt (state_of (plot plt s x args t kws)) x' args' Default kws')) =
         [(a, x', args', plot_settings_of plt s kws')]"
proof -
  let ?s1 = "state_of (plot plt s x args t kws)"
  have g: "grid_ok (s\<lparr>default_ax := Some a\<rparr>)"
    using assms(3) by (simp add: grid_ok_default_ax)
  note p1 = plot_resolved [OF plot_target_index [OF assms(1,2)] g, of plt x args kws]
  have d1: "default_ax ?s1 = Some a"
    by (simp add: p1 outcome_defs)
  have g1: "grid_ok ?s1"
    using assms(3) by (simp add: plot_keeps_grid_ok)
  note p2 = plot_default_ok [OF d1 g1, of plt x' args' kws']
  have st: "plot_settings_of plt ?s1 kws' = plot_settings_of plt s kws'"
    by (simp add: plot_settings_of_def plot_keeps_defaults)
  have "result_of (plot plt s x args t kws) = Inr ()"
    by (simp add: p1 outcome_defs)
  moreover have "draw_calls (events_of (plot plt s x args t kws)) =
      [(a, x, args, plot_settings_of plt s kws)]"
    by (simp add: p1 outcome_defs draw_calls_append draw_calls_redraw plot_settings_of_def)
  ultimately show ?thesis using d1 p2 st by simp
qed

theorem explicit_target_becomes_default_witness:
  "get_axis session_2x2 (IdxTuple [1, 1]) = Inr (Axes 1 1)
   \<and> default_ax session_2x2 = Some (Axes 0 0)
   \<and> default_ax (state_of (plot (matplotlib False) session_2x2 (PList [PInt 1]) []
        (IdxTuple [1, 1]) [])) = Some (Axes 1 1)
   \<and> draw_calls (events_of (plot (matplotlib False)
        (state_of (plot (matplotlib False) session_2x2 (PList [PInt 1]) [] (IdxTuple [1, 1]) []))
        (PList [PInt 2]) [] Default [])) =
      [(Axes 1 1, PList [PInt 2], [], [(''linestyle'', PStr ''-'')])]"
proof -
  have g: "get_axis session_2x2 (IdxTuple [1, 1]) = Inr (Axes 1 1)"
    by (simp add: axes_at_def np_index_def overflows_def py_index_def session_2x2_def)
  have t: "IdxTuple [1, 1] = IdxTuple [1, 1] \<or> IdxTuple [1, 1] = IdxList [1, 1]" by simp
  show ?thesis
    using g explicit_target_becomes_default [OF t g grid_ok_sessions(2), of "matplotlib False" "PList [PInt 1]" "[]" "[]"
        "PList [PInt 2]" "[]" "[]"]
    by (simp add: plot_settings_of_def session_2x2_def)
qed

subsection \<open>Many series from a dictionary\<close>

text \<open>
  A loop of plot calls on the default surface, none of whose rounds raises before its
  plot call: every round succeeds and draws one line, on the default surface, in the
  order of the rounds.
\<close>

lemma add_lines_loop_draws:
  assumes "default_ax s = Some a" and "grid_ok s"
    and "\<And>k. k \<in> set ks \<Longrightarrow> body k = Inr (xl k, yv k, lk k)"
  shows "result_of (add_lines_loop plt body s ks) = Inr ()
     \<and> draw_calls (events_of (add_lines_loop plt body s ks)) =
         map (\<lambda>k. (a, xl k, [yv k], plot_settings_of plt s (lk k))) ks"
  using assms
proof (induction ks arbitrary: s)
  case Nil
  then show ?case by (simp add: outcome_defs)
next
  case (Cons k ks)
  let ?r = "plot plt s (xl k) [yv k] Default (lk k)"
  have b: "body k = Inr (xl k, yv k, lk k)" using Cons.prems(3) by simp
  note p = plot_default_ok [OF Cons.prems(1,2), of plt "xl k" "[yv k]" "lk k"]
  have g: "grid_ok (state_of ?r)" using Cons.prems(2) by (simp add: plot_keeps_grid_ok)
  have st: "\<And>kw. plot_settings_of plt (state_of ?r) kw = plot_settings_of plt s kw"
    by (simp add: plot_settings_of_def plot_keeps_defaults)
  have ih: "result_of (add_lines_loop plt body (state_of ?r) ks) = Inr ()
     \<and> draw_calls (events_of (add_lines_loop plt body (state_of ?r) ks)) =
         map (\<lambda>k. (a, xl k, [yv k], plot_settings_of plt (state_of ?r) (lk k))) ks"
    by (rule Cons.IH [OF p(2) g]) (simp add: Cons.prems(3))
  have unfold: "add_lines_loop plt body s (k # ks) =
      (result_of (add_lines_loop plt body (state_of ?r) ks),
       state_of (add_lines_loop plt body (state_of ?r) ks),
       events_of ?r @ events_of (add_lines_loop plt body (state_of ?r) ks))"
    by (simp add: b p(1) Let_def)
  show ?case
    by (subst unfold, subst unfold)
      (simp add: result_of_def [of "(u, v)" for u v] events_of_def [of "(u, v)" for u v]
        draw_calls_append p(3) ih st)
qed

lemma map_of_dict_loop_kwargs_aux:
  assumes "distinct (map fst kws)"
  shows "map_of (fold (dict_loop_kwarg key) kws acc) name =
     (case map_of kws name of
        None \<Rightarrow> map_of acc name
      | Some v \<Rightarrow> Some (getitem_or_self v key))"
  using assms
proof (induction kws arbitrary: acc)
  case Nil
  then show ?case by simp
next
  case (Cons kv kws)
  obtain k v where kv: "kv = (k, v)" by (cases kv)
  from Cons.prems kv have nk: "map_of kws k = None"
    by (simp add: map_of_eq_None_iff)
  from Cons.prems have d: "distinct (map fst kws)" by simp
  have step: "dict_loop_kwarg key (k, v) acc = dict_set acc k (getitem_or_self v key)"
    by (simp add: dict_loop_kwarg_def)
  show ?case
    using nk by (simp add: kv Cons.IH [OF d] step map_of_dict_set split: option.splits)
qed

lemma map_of_dict_loop_kwargs:
  assumes "distinct (map fst kws)" and "map_of kws name = Some v"
  shows "map_of (dict_loop_kwargs kws key) name = Some (getitem_or_self v key)"
  by (simp add: dict_loop_kwargs_def map_of_dict_loop_kwargs_aux [OF assms(1)] assms(2))

lemma dict_call_entry:
  assumes "distinct (map fst d)" and "list_all hashable (map fst d)" and "(key, yv) \<in> set d"
  shows "dict_call x (PDict d) kws key = Inr (getitem_or_self x key, yv, dict_loop_kwargs kws key)"
proof -
  from assms(2,3) have h: "hashable key" by (auto simp add: list_all_iff)
  from assms(1,3) have "map_of d key = Some yv" by simp
  with h show ?thesis by (simp add: dict_call_def)
qed

lemma map_keys_entries:
  assumes "distinct (map fst d)"
  shows "map (\<lambda>k. g k (the (map_of d k))) (map fst d) = map (\<lambda>kv. g (fst kv) (snd kv)) d"
proof -
  have "map_of d (fst kv) = Some (snd kv)" if "kv \<in> set d" for kv
  proof (cases kv)
    case (Pair k v)
    with that assms show ?thesis by simp
  qed
  then show ?thesis by (simp add: comp_def)
qed

text \<open>
  C5. Let \<^verbatim>\<open>y\<close> be a dictionary (distinct, hashable keys), let the session be as the
  constructor leaves it, with a default surface, and let the options be a dictionary without an entry \<^verbatim>\<open>ax\<close>. Then \<^verbatim>\<open>add_lines\<close> in \<^verbatim>\<open>'dict'\<close> mode returns
  normally; it makes one plot call per entry of \<^verbatim>\<open>y\<close>, in the order of the entries, with
  the data of that entry and the options resolved for its key, and each of these calls
  draws one line on the default surface. An option whose value can be indexed by the key
  is given to the plot call of that key as the indexed value; an option whose value
  cannot (the indexing raises) is given unchanged. For
  \<^verbatim>\<open>y = {'a': [1, 2, 3], 'b': [4, 5, 6]}\<close> and \<^verbatim>\<open>color = {'a': 'red', 'b': 'blue'}\<close> the two
  plot calls receive \<^verbatim>\<open>color='red'\<close> and \<^verbatim>\<open>color='blue'\<close>; for \<^verbatim>\<open>color = 'red'\<close> both
  receive \<^verbatim>\<open>color='red'\<close>.
\<close>

theorem add_lines_dict_mode:
  assumes "distinct (map fst d)" and "list_all hashable (map fst d)"
    and "default_ax s = Some a" and "grid_ok s"
    and "distinct (map fst kws)" and "''ax'' \<notin> fst ` set kws"
  shows "result_of (add_lines plt s x (PDict d) ''dict'' kws) = Inr ()
     \<and> dict_plot_calls x (PDict d) kws =
         map (\<lambda>kv. Inr (getitem_or_self x (fst kv), snd kv, dict_loop_kwargs kws (fst kv))) d
     \<and> draw_calls (events_of (add_lines plt s x (PDict d) ''dict'' kws)) =
         map (\<lambda>kv. (a, getitem_or_self x (fst kv), [snd kv],
                     plot_settings_of plt s (dict_loop_kwargs kws (fst kv)))) d
     \<and> (map_of kws name = Some v \<and> py_getitem v key = Inr w \<longrightarrow>
          map_of (dict_loop_kwargs kws key) name = Some w)
     \<and> (map_of kws name = Some v \<and> py_getitem v key = Inl e \<longrightarrow>
          map_of (dict_loop_kwargs kws key) name = Some v)
     \<and> dict_plot_calls x
          (PDict [(PStr ''a'', PList [PInt 1, PInt 2, PInt 3]),
                  (PStr ''b'', PList [PInt 4, PInt 5, PInt 6])])
          [(''color'', PDict [(PStr ''a'', PStr ''red''), (PStr ''b'', PStr ''blue'')])] =
         [Inr (getitem_or_self x (PStr ''a''), PList [PInt 1, PInt 2, PInt 3],
               [(''color'', PStr ''red'')]),
          Inr (getitem_or_self x (PStr ''b''), PList [PInt 4, PInt 5, PInt 6],
               [(''color'', PStr ''blue'')])]
     \<and> dict_plot_calls x
          (PDict [(PStr ''a'', PList [PInt 1, PInt 2, PInt 3]),
                  (PStr ''b'', PList [PInt 4, PInt 5, PInt 6])])
          [(''color'', PStr ''red'')] =
         [Inr (getitem_or_self x (PStr ''a''), PList [PInt 1, PInt 2, PInt 3],
               [(''color'', PStr ''red'')]),
          Inr (getitem_or_self x (PStr ''b''), PList [PInt 4, PInt 5, PInt 6],
               [(''color'', PStr ''red'')])]"
proof -
  let ?xl = "\<lambda>k. getitem_or_self x k"
  let ?yv = "\<lambda>k. the (map_of d k)"
  let ?lk = "\<lambda>k. dict_loop_kwargs kws k"
  have body: "dict_call x (PDict d) kws k = Inr (?xl k, ?yv k, ?lk k)" if "k \<in> set (map fst d)" for k
  proof -
    from that obtain yv where m: "(k, yv) \<in> set d" by auto
    with assms(1) have "map_of d k = Some yv" by simp
    with dict_call_entry [OF assms(1,2) m] show ?thesis by simp
  qed
  note loop = add_lines_loop_draws [of s a "map fst d" "dict_call x (PDict d) kws" ?xl ?yv ?lk plt,
      OF assms(3,4) body]
  have al: "add_lines plt s x (PDict d) ''dict'' kws =
      add_lines_loop plt (dict_call x (PDict d) kws) s (map fst d)"
    by (simp add: add_lines_def lower_def lower_char_def)
  have c1: "result_of (add_lines plt s x (PDict d) ''dict'' kws) = Inr ()"
    using loop by (simp add: al)
  have c2: "dict_plot_calls x (PDict d) kws =
         map (\<lambda>kv. Inr (getitem_or_self x (fst kv), snd kv, dict_loop_kwargs kws (fst kv))) d"
  proof -
    have "map (dict_call x (PDict d) kws) (map fst d) =
          map (\<lambda>k. Inr (?xl k, ?yv k, ?lk k)) (map fst d)"
      by (rule map_cong) (simp_all add: body del: map_map)
    also have "\<dots> = map (\<lambda>kv. Inr (?xl (fst kv), snd kv, ?lk (fst kv))) d"
      by (rule map_keys_entries [OF assms(1), of "\<lambda>k y. Inr (?xl k, y, ?lk k)"])
    finally show ?thesis by (simp add: dict_plot_calls_def del: map_map)
  qed
  have c3: "draw_calls (events_of (add_lines plt s x (PDict d) ''dict'' kws)) =
         map (\<lambda>kv. (a, getitem_or_self x (fst kv), [snd kv],
                     plot_settings_of plt s (dict_loop_kwargs kws (fst kv)))) d"
  proof -
    have "draw_calls (events_of (add_lines plt s x (PDict d) ''dict'' kws)) =
          map (\<lambda>k. (a, ?xl k, [?yv k], plot_settings_of plt s (?lk k))) (map fst d)"
      using loop by (simp add: al del: map_map)
    also have "\<dots> = map (\<lambda>kv. (a, ?xl (fst kv), [snd kv], plot_settings_of plt s (?lk (fst kv)))) d"
      by (rule map_keys_entries [OF assms(1),
            of "\<lambda>k y. (a, ?xl k, [y], plot_settings_of plt s (?lk k))"])
    finally show ?thesis .
  qed
  have c4: "map_of kws name = Some v \<and> py_getitem v key = Inr w \<longrightarrow>
          map_of (dict_loop_kwargs kws key) name = Some w"
    by (auto simp add: map_of_dict_loop_kwargs [OF assms(5)] getitem_or_self_def)
  have c5: "map_of kws name = Some v \<and> py_getitem v key = Inl e \<longrightarrow>
          map_of (dict_loop_kwargs kws key) name = Some v"
    by (auto simp add: map_of_dict_loop_kwargs [OF assms(5)] getitem_or_self_def)
  have c6: "dict_plot_calls x
          (PDict [(PStr ''a'', PList [PInt 1, PInt 2, PInt 3]),
                  (PStr ''b'', PList [PInt 4, PInt 5, PInt 6])])
          [(''color'', PDict [(PStr ''a'', PStr ''red''), (PStr ''b'', PStr ''blue'')])] =
         [Inr (getitem_or_self x (PStr ''a''), PList [PInt 1, PInt 2, PInt 3],
               [(''color'', PStr ''red'')]),
          Inr (getitem_or_self x (PStr ''b''), PList [PInt 4, PInt 5, PInt 6],
               [(''color'', PStr ''blue'')])]"
    by (simp add: dict_plot_calls_def dict_call_def dict_loop_kwargs_def dict_loop_kwarg_def
        getitem_or_self_def [of "PDict u" for u])
  have c7: "dict_plot_calls x
          (PDict [(PStr ''a'', PList [PInt 1, PInt 2, PInt 3]),
                  (PStr ''b'', PList [PInt 4, PInt 5, PInt 6])])
          [(''color'', PStr ''red'')] =
         [Inr (getitem_or_self x (PStr ''a''), PList [PInt 1, PInt 2, PInt 3],
               [(''color'', PStr ''red'')]),
          Inr (getitem_or_self x (PStr ''b''), PList [PInt 4, PInt 5, PInt 6],
               [(''color'', PStr ''red'')])]"
    by (simp add: dict_plot_calls_def dict_call_def dict_loop_kwargs_def dict_loop_kwarg_def
        getitem_or_self_def [of "PStr u" for u])
  from c1 c2 c3 c4 c5 c6 c7 show ?thesis by blast
qed

theorem add_lines_dict_mode_witness:
  "draw_calls (events_of (add_lines (matplotlib False) session_1x1 (PList [PInt 0, PInt 1, PInt 2])
        (PDict [(PStr ''a'', PList [PInt 1, PInt 2, PInt 3]),
                (PStr ''b'', PList [PInt 4, PInt 5, PInt 6])])
        ''dict'' [(''color'', PDict [(PStr ''a'', PStr ''red''), (PStr ''b'', PStr ''blue'')])])) =
     [(Axes 0 0, PList [PInt 0, PInt 1, PInt 2], [PList [PInt 1, PInt 2, PInt 3]],
       plot_settings_of (matplotlib False) session_1x1 [(''color'', PStr ''red'')]),
      (Axes 0 0, PList [PInt 0, PInt 1, PInt 2], [PList [PInt 4, PInt 5, PInt 6]],
       plot_settings_of (matplotlib False) session_1x1 [(''color'', PStr ''blue'')])]
   \<and> map_of (dict_loop_kwargs
         [(''color'', PDict [(PStr ''a'', PStr ''red''), (PStr ''b'', PStr ''blue'')])]
         (PStr ''b'')) ''color'' = Some (PStr ''blue'')
   \<and> map_of (dict_loop_kwargs [(''color'', PStr ''red'')] (PStr ''b'')) ''color'' =
         Some (PStr ''red'')"
proof -
  let ?d = "[(PStr ''a'', PList [PInt 1, PInt 2, PInt 3]),
             (PStr ''b'', PList [PInt 4, PInt 5, PInt 6])]"
  let ?c = "PDict [(PStr ''a'', PStr ''red''), (PStr ''b'', PStr ''blue'')]"
  have h1: "distinct (map fst ?d)" by simp
  have h2: "list_all hashable (map fst ?d)" by simp
  have h3: "default_ax session_1x1 = Some (Axes 0 0)" by (simp add: session_1x1_def)
  have h4: "distinct (map fst [(''color'', ?c)])" by simp
  have h5: "distinct (map fst [(''color'', PStr ''red'')])" by simp
  have h6: "''ax'' \<notin> fst ` set [(''color'', ?c)]" by simp
  have h7: "''ax'' \<notin> fst ` set [(''color'', PStr ''red'')]" by simp
  have g1: "map_of [(''color'', ?c)] ''color'' = Some ?c
      \<and> py_getitem ?c (PStr ''b'') = Inr (PStr ''blue'')"
    by simp
  have g2: "map_of [(''color'', PStr ''red'')] ''color'' = Some (PStr ''red'')
      \<and> py_getitem (PStr ''red'') (PStr ''b'') = Inl TypeError"
    by simp
  have k: "dict_loop_kwargs [(''color'', ?c)] (PStr ''a'') = [(''color'', PStr ''red'')]"
    "dict_loop_kwargs [(''color'', ?c)] (PStr ''b'') = [(''color'', PStr ''blue'')]"
    by (simp_all add: dict_loop_kwargs_def dict_loop_kwarg_def getitem_or_self_def)
  have x: "getitem_or_self (PList [PInt 0, PInt 1, PInt 2]) (PStr ''a'') =
        PList [PInt 0, PInt 1, PInt 2]"
    "getitem_or_self (PList [PInt 0, PInt 1, PInt 2]) (PStr ''b'') =
        PList [PInt 0, PInt 1, PInt 2]"
    by (simp_all add: getitem_or_self_def)
  show ?thesis
    using add_lines_dict_mode [OF h1 h2 h3 grid_ok_sessions(1) h4 h6, of "matplotlib False" "PList [PInt 0, PInt 1, PInt 2]"
        "''color''" ?c "PStr ''b''" "PStr ''blue''"] g1
      add_lines_dict_mode [OF h1 h2 h3 grid_ok_sessions(1) h5 h7, of "matplotlib False" "PList [PInt 0, PInt 1, PInt 2]"
        "''color''" "PStr ''red''" "PStr ''b''" _ TypeError] g2
    by (simp add: k x)
qed

subsection \<open>The legend registry\<close>

lemma update_legend_in_grid:
  assumes "axes_grid s = map (\<lambda>i. map (\<lambda>j. Axes i j) [0..<nc]) [0..<nr]"
    and "0 \<le> i" "i < int nr" "0 \<le> j" "j < int nc"
    and "int nr \<le> 9223372036854775808" "int nc \<le> 9223372036854775808"
  shows "update_legend s (IdxTuple [i, j]) =
     (Inr (snd (legend_entry s (i, j))),
      s\<lparr>legends := dict_set (legends s) (IdxTuple [i, j]) (snd (legend_entry s (i, j)))\<rparr>,
      legend_events s (i, j))"
  using assms(2-)
  by (simp add: update_legend_def axes_at_grid [OF assms(1)] legend_entry_def legend_events_def
      Let_def overflows_def)

text \<open>
  The loop of \<^verbatim>\<open>update_legends\<close> over distinct grid indices none of which is a key of the
  registry yet, on a grid whose counts fit numpy's index type: one legend update per index, in the order of the indices, and one new
  entry per index at the end of the registry.
\<close>

lemma update_legends_loop_new:
  assumes "axes_grid s = map (\<lambda>i. map (\<lambda>j. Axes i j) [0..<nc]) [0..<nr]"
    and "\<And>i j. (i, j) \<in> set ijs \<Longrightarrow> 0 \<le> i \<and> i < int nr \<and> 0 \<le> j \<and> j < int nc"
    and "distinct ijs"
    and "\<And>i j. (i, j) \<in> set ijs \<Longrightarrow> IdxTuple [i, j] \<notin> fst ` set (legends s)"
    and "int nr \<le> 9223372036854775808" and "int nc \<le> 9223372036854775808"
  shows "update_legends_loop s ijs =
     (Inr (), s\<lparr>legends := legends s @ map (legend_entry s) ijs\<rparr>,
      concat (map (legend_events s) ijs))"
  using assms
proof (induction ijs arbitrary: s)
  case Nil
  then show ?case by simp
next
  case (Cons ij ijs)
  obtain i j where ij: "ij = (i, j)" by (cases ij)
  let ?s1 = "s\<lparr>legends := legends s @ [legend_entry s (i, j)]\<rparr>"
  have r: "0 \<le> i \<and> i < int nr \<and> 0 \<le> j \<and> j < int nc"
    using Cons.prems(2) [of i j] by (simp add: ij)
  have new: "IdxTuple [i, j] \<notin> fst ` set (legends s)"
    using Cons.prems(4) [of i j] by (simp add: ij)
  have u: "update_legend s (IdxTuple [i, j]) =
      (Inr (snd (legend_entry s (i, j))), ?s1, legend_events s (i, j))"
    using r Cons.prems(5,6)
    by (simp add: update_legend_in_grid [OF Cons.prems(1)] dict_set_new [OF new]
        legend_entry_def)
  have e: "legend_entry ?s1 = legend_entry s" "legend_events ?s1 = legend_events s"
    by (simp_all add: legend_entry_def legend_events_def fun_eq_iff)
  have ih: "update_legends_loop ?s1 ijs =
     (Inr (), ?s1\<lparr>legends := legends ?s1 @ map (legend_entry ?s1) ijs\<rparr>,
      concat (map (legend_events ?s1) ijs))"
  proof (rule Cons.IH)
    show "axes_grid ?s1 = map (\<lambda>i. map (\<lambda>j. Axes i j) [0..<nc]) [0..<nr]"
      using Cons.prems(1) by simp
    show "0 \<le> i' \<and> i' < int nr \<and> 0 \<le> j' \<and> j' < int nc" if "(i', j') \<in> set ijs" for i' j'
      using that Cons.prems(2) [of i' j'] by simp
    show "distinct ijs" using Cons.prems(3) by simp
    show "IdxTuple [i', j'] \<notin> fst ` set (legends ?s1)" if "(i', j') \<in> set ijs" for i' j'
    proof -
      from that Cons.prems(3) have "(i', j') \<noteq> (i, j)" by (auto simp add: ij)
      moreover from that have "IdxTuple [i', j'] \<notin> fst ` set (legends s)"
        using Cons.prems(4) [of i' j'] by simp
      ultimately show ?thesis by (auto simp add: legend_entry_def)
    qed
    show "int nr \<le> 9223372036854775808" by (rule Cons.prems(5))
    show "int nc \<le> 9223372036854775808" by (rule Cons.prems(6))
  qed
  show ?case
    by (simp add: ij u ih e outcome_defs Let_def)
qed

lemma grid_indices_product:
  "grid_indices s = List.product (arange (fst (subplots s))) (arange (snd (subplots s)))"
  by (simp add: grid_indices_def product_concat_map)

lemma distinct_arange: "distinct (arange n)"
  by (simp add: arange_def distinct_map)

lemma set_arange: "set (arange n) = {i. 0 \<le> i \<and> i < n}"
proof -
  have "i \<in> int ` {0..<nat n}" if "0 \<le> i" "i < n" for i
    using that by (intro image_eqI [where x = "nat i"]) auto
  then show ?thesis by (auto simp add: arange_def)
qed

text \<open>
  Every session that the constructor returns, for counts that fit numpy's index type, has
  all its grid indices inside the array.
\<close>

lemma init_grid_ok:
  assumes "1 \<le> nrows" and "1 \<le> ncolumns"
    and "fst (init plt nrows ncolumns sharex sharey [] kws) = Inr s"
    and "nrows \<le> 9223372036854775808" and "ncolumns \<le> 9223372036854775808"
  shows "grid_ok s"
proof -
  from assms(3) have s: "s = (fold (init_kwarg plt) kws (blank_session plt))
             \<lparr>axes_grid := map (\<lambda>i. map (\<lambda>j. Axes i j) [0..<nat ncolumns]) [0..<nat nrows],
              subplots := (nrows, ncolumns), default_ax := Some (Axes 0 0)\<rparr>"
    by (simp add: init_ok [OF assms(1,2)])
  have a: "axes_grid s = map (\<lambda>i. map (\<lambda>j. Axes i j) [0..<nat ncolumns]) [0..<nat nrows]"
    and b: "subplots s = (nrows, ncolumns)"
    by (simp_all add: s)
  have "in_grid s ij" if "ij \<in> set (grid_indices s)" for ij
  proof -
    from that have "0 \<le> fst ij \<and> fst ij < nrows \<and> 0 \<le> snd ij \<and> snd ij < ncolumns"
      by (auto simp add: grid_indices_product b set_arange)
    with assms(4,5) show ?thesis
      by (simp add: in_grid_def axes_at_grid [OF a] overflows_def)
  qed
  then show ?thesis by (simp add: grid_ok_def list_all_iff)
qed

lemma fold_init_kwarg_legends: "legends (fold (init_kwarg plt) kws s) = legends s"
  by (induction kws arbitrary: s) (simp_all add: init_kwarg_def)

lemma update_legends_without_plots:
  assumes "axes_grid s = map (\<lambda>i. map (\<lambda>j. Axes i j) [0..<nat ncolumns]) [0..<nat nrows]"
    and "subplots s = (nrows, ncolumns)" and "legends s = []"
    and "nrows \<le> 9223372036854775808" and "ncolumns \<le> 9223372036854775808"
  shows "update_legends s =
     (Inr (map (legend_entry s) (List.product (arange nrows) (arange ncolumns))),
      s\<lparr>legends := map (legend_entry s) (List.product (arange nrows) (arange ncolumns))\<rparr>,
      concat (map (legend_events s) (List.product (arange nrows) (arange ncolumns))))"
proof -
  let ?ijs = "List.product (arange nrows) (arange ncolumns)"
  have g: "grid_indices s = ?ijs" by (simp add: grid_indices_product assms(2))
  have "update_legends_loop s ?ijs =
     (Inr (), s\<lparr>legends := legends s @ map (legend_entry s) ?ijs\<rparr>,
      concat (map (legend_events s) ?ijs))"
  proof (rule update_legends_loop_new [OF assms(1)])
    show "0 \<le> i \<and> i < int (nat nrows) \<and> 0 \<le> j \<and> j < int (nat ncolumns)"
      if "(i, j) \<in> set ?ijs" for i j
      using that by (auto simp add: set_arange)
    show "distinct ?ijs" by (simp add: distinct_product distinct_arange)
    show "IdxTuple [i, j] \<notin> fst ` set (legends s)" for i j by (simp add: assms(3))
    show "int (nat nrows) \<le> 9223372036854775808" using assms(4) by simp
    show "int (nat ncolumns) \<le> 9223372036854775808" using assms(5) by simp
  qed
  then show ?thesis by (simp add: update_legends_def g assms(3) outcome_defs)
qed

text \<open>
  On a session that has just been constructed, with counts that fit numpy's index type,
  \<^verbatim>\<open>update_legends\<close> updates the legend of
  every grid index once, row by row, and returns one entry per grid index, in the same
  order: \<open>rows * columns\<close> entries.
\<close>

lemma update_legends_after_init:
  assumes "1 \<le> nrows" and "1 \<le> ncolumns"
    and "fst (init plt nrows ncolumns sharex sharey [] kws) = Inr s"
    and "nrows \<le> 9223372036854775808" and "ncolumns \<le> 9223372036854775808"
  shows "result_of (update_legends s) =
           Inr (map (legend_entry s) (List.product (arange nrows) (arange ncolumns)))"
    and "events_of (update_legends s) =
           concat (map (legend_events s) (List.product (arange nrows) (arange ncolumns)))"
    and "length (map (legend_entry s) (List.product (arange nrows) (arange ncolumns))) =
           nat nrows * nat ncolumns"
proof -
  from assms(3) have s: "s = (fold (init_kwarg plt) kws (blank_session plt))
             \<lparr>axes_grid := map (\<lambda>i. map (\<lambda>j. Axes i j) [0..<nat ncolumns]) [0..<nat nrows],
              subplots := (nrows, ncolumns), default_ax := Some (Axes 0 0)\<rparr>"
    by (simp add: init_ok [OF assms(1,2)])
  have a: "axes_grid s = map (\<lambda>i. map (\<lambda>j. Axes i j) [0..<nat ncolumns]) [0..<nat nrows]"
    and b: "subplots s = (nrows, ncolumns)" and c: "legends s = []"
    by (simp_all add: s fold_init_kwarg_legends blank_session_def)
  note u = update_legends_without_plots [OF a b c assms(4,5)]
  show "result_of (update_legends s) =
           Inr (map (legend_entry s) (List.product (arange nrows) (arange ncolumns)))"
    by (subst u) (simp add: result_of_def)
  show "events_of (update_legends s) =
           concat (map (legend_events s) (List.product (arange nrows) (arange ncolumns)))"
    by (subst u) (simp add: events_of_def)
  show "length (map (legend_entry s) (List.product (arange nrows) (arange ncolumns))) =
           nat nrows * nat ncolumns"
    by (simp add: length_product arange_def)
qed

text \<open>
  C6, at a failing input. \<^verbatim>\<open>_update_legend\<close> stores the legend under its argument, and
  \<^verbatim>\<open>update_legends\<close> passes the grid index \<^verbatim>\<open>(i, j)\<close>. \<^verbatim>\<open>plot\<close> passes the surface itself:
  it computes \<^verbatim>\<open>ax_index = self.get_axis_index(ax)\<close> and does not use it, and
  \<^verbatim>\<open>get_axis_index\<close> returns the surface, not its index. So after
  \<^verbatim>\<open>CcfePlot()\<close> and one \<^verbatim>\<open>plot([1, 2, 3])\<close> the mapping that \<^verbatim>\<open>update_legends()\<close> returns
  for the 1 by 1 grid has two entries, one keyed by the surface and one keyed by \<open>(0, 0)\<close>.
\<close>

theorem update_legends_after_plot:
  "fst (init (matplotlib False) 1 1 (PInt 0) (PInt 0) [] []) = Inr session_1x1
   \<and> result_of (plot (matplotlib False) session_1x1 (PList [PInt 1, PInt 2, PInt 3]) [] Default [])
       = Inr ()
   \<and> result_of (update_legends (state_of
        (plot (matplotlib False) session_1x1 (PList [PInt 1, PInt 2, PInt 3]) [] Default []))) =
      Inr [(Handle (Axes 0 0), Some (Legend (Axes 0 0))),
           (IdxTuple [0, 0], Some (Legend (Axes 0 0)))]"
proof -
  have "result_of (plot (matplotlib False) session_1x1 (PList [PInt 1, PInt 2, PInt 3]) [] Default [])
       = Inr ()"
    by (simp add: plot_eval session_1x1_def matplotlib_def)
  moreover have "result_of (update_legends (state_of
        (plot (matplotlib False) session_1x1 (PList [PInt 1, PInt 2, PInt 3]) [] Default []))) =
      Inr [(Handle (Axes 0 0), Some (Legend (Axes 0 0))),
           (IdxTuple [0, 0], Some (Legend (Axes 0 0)))]"
    by (simp add: plot_eval update_legends_def grid_indices_def arange_def
        session_1x1_def matplotlib_def)
  ultimately show ?thesis by (simp add: init_1x1)
qed

subsection \<open>Autoscaling\<close>

text \<open>
  Without the attribute \<^verbatim>\<open>self.kwargs\<close> the call raises at its first statement. With the
  attribute, holding a surface under \<^verbatim>\<open>'ax'\<close>, it autoscales that surface, removes the
  stored limits that the axis selector names, and redraws.
\<close>

lemma autoscale_without_kwargs:
  "kwargs s = None \<Longrightarrow> autoscale plt s enable axis tight = (Inl AttributeError, s, [])"
  by (simp add: autoscale_def get_axes_def)

lemma autoscale_with_kwargs:
  assumes "kwargs s = Some kw" and "map_of kw ''ax'' = Some (PAxes a)"
  shows "autoscale plt s enable axis tight =
     (Inr (),
      s\<lparr>kwargs := Some (pop_limit ''ylim'' (PStr ''y'') axis
                          (pop_limit ''xlim'' (PStr ''x'') axis kw))\<rparr>,
      AxAutoscale a enable axis tight # redraw plt)"
  by (simp add: autoscale_def get_axes_def assms)

text \<open>No session that the constructor returns has the attribute \<^verbatim>\<open>self.kwargs\<close>.\<close>

lemma fold_init_kwarg_kwargs: "kwargs (fold (init_kwarg plt) kws s) = kwargs s"
  by (induction kws arbitrary: s) (simp_all add: init_kwarg_def)

lemma init_no_kwargs:
  assumes "fst (init plt nrows ncolumns sharex sharey args kws) = Inr s"
  shows "kwargs s = None"
proof -
  have "kwargs (state_of (set_default_axis s' t)) = kwargs s'" for s' t
    by (simp add: set_default_axis_def outcome_defs split: sum.splits)
  with assms show ?thesis
    by (auto simp add: init_def Let_def fold_init_kwarg_kwargs blank_session_def
        split: if_splits sum.splits)
qed

text \<open>
  C4, at two failing inputs. The comment in \<^verbatim>\<open>autoscale\<close> says that stored limits are
  reset, and the claim says that the call completes and redraws. \<^verbatim>\<open>autoscale\<close> starts
  with \<^verbatim>\<open>self.get_axes()\<close>, which reads \<^verbatim>\<open>self.kwargs['ax']\<close>; \<^verbatim>\<open>__init__\<close> does not create
  \<^verbatim>\<open>self.kwargs\<close> (the assignment is commented out) and \<^verbatim>\<open>plot\<close> does not either. On the
  session that \<^verbatim>\<open>CcfePlot()\<close> returns, \<^verbatim>\<open>autoscale(enable=True, axis='x')\<close> raises
  \<^verbatim>\<open>AttributeError\<close>; nothing is autoscaled and nothing is redrawn. When the caller has
  given that session an attribute \<^verbatim>\<open>kwargs = {'xlim': (0, 10)}\<close>, the same call raises
  \<^verbatim>\<open>KeyError\<close> and the limit stays stored.
\<close>

theorem autoscale_raises_on_new_session:
  "fst (init (matplotlib True) 1 1 (PInt 0) (PInt 0) [] []) = Inr session_1x1
   \<and> autoscale (matplotlib True) session_1x1 (PInt 1) (PStr ''x'') PNone =
       (Inl AttributeError, session_1x1, [])
   \<and> autoscale (matplotlib True)
        (session_1x1\<lparr>kwargs := Some [(''xlim'', PTuple [PInt 0, PInt 10])]\<rparr>)
        (PInt 1) (PStr ''x'') PNone =
       (Inl KeyError, session_1x1\<lparr>kwargs := Some [(''xlim'', PTuple [PInt 0, PInt 10])]\<rparr>, [])"
proof -
  have "kwargs session_1x1 = None" by (simp add: session_1x1_def)
  then show ?thesis
    by (simp add: init_1x1 autoscale_without_kwargs) (simp add: autoscale_def get_axes_def)
qed

end
